theory Spec2Isabelle
  imports Complex_Main "HOL-Library.Log_Nat"
begin

section \<open>Python values the two functions of \<open>app.py\<close> work on\<close>

text \<open>
  The development embeds the two pure functions of \<open>app.py\<close>, the calorie extractor
  \<open>extract_total_calories\<close> and the health metrics calculator
  \<open>calculate_profile_data\<close>, with the semantics that CPython gives to the operations they
  use: the regular expression engine on Unicode strings, \<open>int\<close> on a string of digits,
  and the arithmetic of \<open>int\<close> and \<open>float\<close> (IEEE 754 binary64). Every exception
  that these operations raise is a value of the result.

  A Python \<open>str\<close> is a sequence of Unicode code points, and \<open>len\<close>, indexing and the
  regular expression engine all count code points. A string is therefore a list of
  code points, each a natural number. \<open>ascii\<close> reads an ASCII literal as such a list.
\<close>

type_synonym pystr = "nat list"

definition ascii :: "string \<Rightarrow> pystr" where
  "ascii s = map of_char s"

text \<open>The exceptions that the modelled code can raise.\<close>

datatype pyerr =
  TypeError | AttributeError | KeyError | ZeroDivisionError | OverflowError | ValueError

section \<open>The calorie extractor: \<open>extract_total_calories\<close>\<close>

text \<open>
  \<^verbatim>\<open>
  def extract_total_calories(text):
      match = re.search(r"Total Calor[U+00ED]as:\s*(\d+)", text, re.IGNORECASE)
      return int(match.group(1)) if match else 0
  \<close>
\<close>

subsection \<open>Character classes of a \<open>str\<close> pattern\<close>

text \<open>
  \<open>\s\<close> in a \<open>str\<close> pattern matches the Unicode whitespace characters: the ASCII ones
  \<open>[ \t\n\r\f\v]\<close>, the separators U+001C to U+001F, U+0085, U+00A0, U+1680, U+2000 to
  U+200A, U+2028, U+2029, U+202F, U+205F and U+3000.
\<close>

definition is_space :: "nat \<Rightarrow> bool" where
  "is_space c \<longleftrightarrow>
     (0x09 \<le> c \<and> c \<le> 0x0D) \<or> (0x1C \<le> c \<and> c \<le> 0x20) \<or> c = 0x85 \<or> c = 0xA0 \<or>
     c = 0x1680 \<or> (0x2000 \<le> c \<and> c \<le> 0x200A) \<or> c = 0x2028 \<or> c = 0x2029 \<or>
     c = 0x202F \<or> c = 0x205F \<or> c = 0x3000"

text \<open>
  \<open>\d\<close> in a \<open>str\<close> pattern matches every Unicode decimal digit (general category Nd),
  not only \<open>0\<close> to \<open>9\<close>. The decimal digits come in runs of ten consecutive code points,
  zero first; the list holds the zero of every run (Unicode 14.0, the character database
  of CPython 3.11).
\<close>

definition decimal_zeros :: "nat list" where
  "decimal_zeros =
    [0x30, 0x660, 0x6F0, 0x7C0, 0x966, 0x9E6, 0xA66, 0xAE6, 0xB66, 0xBE6, 0xC66, 0xCE6,
     0xD66, 0xDE6, 0xE50, 0xED0, 0xF20, 0x1040, 0x1090, 0x17E0, 0x1810, 0x1946, 0x19D0,
     0x1A80, 0x1A90, 0x1B50, 0x1BB0, 0x1C40, 0x1C50, 0xA620, 0xA8D0, 0xA900, 0xA9D0,
     0xA9F0, 0xAA50, 0xABF0, 0xFF10, 0x104A0, 0x10D30, 0x11066, 0x110F0, 0x11136,
     0x111D0, 0x112F0, 0x11450, 0x114D0, 0x11650, 0x116C0, 0x11730, 0x118E0, 0x11950,
     0x11C50, 0x11D50, 0x11DA0, 0x16A60, 0x16AC0, 0x16B50, 0x1D7CE, 0x1D7D8, 0x1D7E2,
     0x1D7EC, 0x1D7F6, 0x1E140, 0x1E2F0, 0x1E950, 0x1FBF0]"

text \<open>The decimal value of a code point, if it is a decimal digit.\<close>

definition digit_value :: "nat \<Rightarrow> nat option" where
  "digit_value c =
     (case find (\<lambda>z. z \<le> c \<and> c < z + 10) decimal_zeros of
        None \<Rightarrow> None
      | Some z \<Rightarrow> Some (c - z))"

definition is_digit :: "nat \<Rightarrow> bool" where
  "is_digit c \<longleftrightarrow> digit_value c \<noteq> None"

text \<open>
  Under \<open>re.IGNORECASE\<close> a literal of the pattern matches the character itself, its
  other case, and the characters that the engine folds to the same letter. For the
  characters of the label these are: both cases of an ASCII letter, U+017F (LATIN SMALL
  LETTER LONG S) for \<open>s\<close>, and U+00CD for U+00ED (i with acute accent). The space and the
  colon have no case and match only themselves. The function is the engine's relation on
  the characters that occur in the pattern of \<open>extract_total_calories\<close>.
\<close>

definition ignorecase_eq :: "nat \<Rightarrow> nat \<Rightarrow> bool" where
  "ignorecase_eq p c \<longleftrightarrow>
     c = p \<or>
     (0x41 \<le> p \<and> p \<le> 0x5A \<and> c = p + 32) \<or>
     (0x61 \<le> p \<and> p \<le> 0x7A \<and> c + 32 = p) \<or>
     ((p = 0x53 \<or> p = 0x73) \<and> c = 0x17F) \<or>
     (p = 0xED \<and> c = 0xCD) \<or> (p = 0xCD \<and> c = 0xED)"

subsection \<open>A backtracking matcher for the constructs of the pattern\<close>

text \<open>
  The pattern is a sequence of items: a literal character, \<open>\s*\<close> and \<open>\d+\<close>. The
  quantifiers are greedy: they take as many characters as they can and give them back
  one at a time when the rest of the pattern fails.
\<close>

datatype atom = Lit nat | Space | Digit

datatype item = One atom | Star atom | Plus atom

fun atom_matches :: "atom \<Rightarrow> nat \<Rightarrow> bool" where
  "atom_matches (Lit p) c = ignorecase_eq p c"
| "atom_matches Space c = is_space c"
| "atom_matches Digit c = is_digit c"

text \<open>
  \<open>match_items ps t\<close> matches the items \<open>ps\<close> at the start of \<open>t\<close> and returns the text
  consumed by each item, or \<open>None\<close> when every way of matching fails.
\<close>

fun match_items :: "item list \<Rightarrow> pystr \<Rightarrow> pystr list option" where
  "match_items [] t = Some []"
| "match_items (One a # ps) [] = None"
| "match_items (One a # ps) (c # cs) =
     (if atom_matches a c then map_option (\<lambda>gs. [c] # gs) (match_items ps cs) else None)"
| "match_items (Star a # ps) [] = map_option (\<lambda>gs. [] # gs) (match_items ps [])"
| "match_items (Star a # ps) (c # cs) =
     (if atom_matches a c then
        (case match_items (Star a # ps) cs of
           Some (g # gs) \<Rightarrow> Some ((c # g) # gs)
         | _ \<Rightarrow> map_option (\<lambda>gs. [] # gs) (match_items ps (c # cs)))
      else map_option (\<lambda>gs. [] # gs) (match_items ps (c # cs)))"
| "match_items (Plus a # ps) [] = None"
| "match_items (Plus a # ps) (c # cs) =
     (if atom_matches a c then
        (case match_items (Star a # ps) cs of
           Some (g # gs) \<Rightarrow> Some ((c # g) # gs)
         | _ \<Rightarrow> None)
      else None)"

text \<open>The label \<open>Total Calor[U+00ED]as:\<close>; its accented letter is U+00ED.\<close>

definition label :: pystr where
  "label = ascii ''Total Calor'' @ [0xED] @ ascii ''as:''"

text \<open>The pattern \<open>Total Calor[U+00ED]as:\s*(\d+)\<close>. Group 1 is its last item.\<close>

definition pattern :: "item list" where
  "pattern = map (\<lambda>p. One (Lit p)) label @ [Star Space, Plus Digit]"

text \<open>
  \<open>re.search\<close> tries the pattern at every position of the text from left to right and
  stops at the first position where it matches. The result is group 1 of that match.
\<close>

fun re_search :: "pystr \<Rightarrow> pystr option" where
  "re_search [] = map_option last (match_items pattern [])"
| "re_search (c # cs) =
     (case match_items pattern (c # cs) of
        Some gs \<Rightarrow> Some (last gs)
      | None \<Rightarrow> re_search cs)"

subsection \<open>\<open>int\<close> of a string of decimal digits\<close>

text \<open>
  \<open>int\<close> reads every Unicode decimal digit by its decimal value. CPython (3.11 and
  later, and the security releases of 3.7 to 3.10) refuses to convert a decimal string
  of more than \<open>sys.int_max_str_digits\<close> digits and raises \<open>ValueError\<close>; leading zeros
  count. The limit is 4300 unless the program changes it, and \<open>app.py\<close> does not.
\<close>

definition int_max_str_digits :: nat where
  "int_max_str_digits = 4300"

fun decimal :: "nat \<Rightarrow> pystr \<Rightarrow> nat option" where
  "decimal acc [] = Some acc"
| "decimal acc (c # cs) =
     (case digit_value c of None \<Rightarrow> None | Some d \<Rightarrow> decimal (10 * acc + d) cs)"

text \<open>
  \<open>py_int\<close> is \<open>int\<close> on the strings that group 1 can hold. (Signs, underscores and
  surrounding whitespace, which \<open>int\<close> also accepts, cannot occur in a run of digits.)
\<close>

definition py_int :: "pystr \<Rightarrow> pyerr + int" where
  "py_int s =
     (case decimal 0 s of
        None \<Rightarrow> Inl ValueError
      | Some n \<Rightarrow>
          if s = [] \<or> length s > int_max_str_digits then Inl ValueError else Inr (int n))"

definition extract_total_calories :: "pystr \<Rightarrow> pyerr + int" where
  "extract_total_calories text =
     (case re_search text of
        Some g \<Rightarrow> py_int g
      | None \<Rightarrow> Inr 0)"

subsection \<open>What the search finds, in closed form\<close>

text \<open>
  \<open>label_at t\<close>: the text \<open>t\<close> starts with the label, in any case. \<open>digits_after t\<close>: the
  digits that follow the label and the whitespace after it.
\<close>

definition label_at :: "pystr \<Rightarrow> bool" where
  "label_at t \<longleftrightarrow>
     length label \<le> length t \<and> list_all2 ignorecase_eq label (take (length label) t)"

definition digits_after :: "pystr \<Rightarrow> pystr" where
  "digits_after t = takeWhile is_digit (dropWhile is_space (drop (length label) t))"

subsection \<open>The extractor as the specification words it\<close>

text \<open>
  \<open>occurs_at t i ds\<close>: at position \<open>i\<close> of \<open>t\<close> stands the label, in any case, followed by
  optional whitespace and the run of one or more decimal digits \<open>ds\<close>; the run ends where
  the text ends or a character that is not a digit follows. \<open>first_occurrence\<close> is the
  occurrence that a scan from left to right meets first. \<open>decimal_reading\<close> is the number
  that a run of digits denotes in base ten.
\<close>

definition occurs_at :: "pystr \<Rightarrow> nat \<Rightarrow> pystr \<Rightarrow> bool" where
  "occurs_at t i ds \<longleftrightarrow>
     (\<exists>pre lab ws rest.
        t = pre @ lab @ ws @ ds @ rest \<and> length pre = i \<and>
        list_all2 ignorecase_eq label lab \<and> list_all is_space ws \<and>
        ds \<noteq> [] \<and> list_all is_digit ds \<and> (rest = [] \<or> \<not> is_digit (hd rest)))"

definition first_occurrence :: "pystr \<Rightarrow> nat \<Rightarrow> pystr \<Rightarrow> bool" where
  "first_occurrence t i ds \<longleftrightarrow> occurs_at t i ds \<and> (\<forall>j<i. \<forall>ds'. \<not> occurs_at t j ds')"

definition digit_of :: "nat \<Rightarrow> nat" where
  "digit_of c = (case digit_value c of Some d \<Rightarrow> d | None \<Rightarrow> 0)"

definition decimal_reading :: "pystr \<Rightarrow> nat" where
  "decimal_reading ds = (\<Sum>k<length ds. digit_of (ds ! k) * 10 ^ (length ds - 1 - k))"

section \<open>The health metrics calculator: \<open>calculate_profile_data\<close>\<close>

text \<open>
  \<^verbatim>\<open>
  def calculate_profile_data(user_data):
      if not all(key in user_data and user_data[key] is not None
                 for key in ['weight', 'height', 'age', 'gender', 'activity_level']):
          return {"imc": None, "tdee": None, "imc_recommendation": "Completa tu perfil"}
      height_m = user_data['height'] / 100
      imc = round(user_data['weight'] / (height_m ** 2), 2)
      if user_data['gender'].lower() == 'masculino':
          bmr = 10 * user_data['weight'] + 6.25 * user_data['height'] - 5 * user_data['age'] + 5
      else: # Femenino
          bmr = 10 * user_data['weight'] + 6.25 * user_data['height'] - 5 * user_data['age'] - 161
      activity_multipliers = {'sedentario': 1.2, 'ligero': 1.375, 'moderado': 1.55,
                              'activo': 1.725, 'muy activo': 1.9}
      multiplier = activity_multipliers.get(user_data['activity_level'].lower(), 1.2)
      tdee = round(bmr * multiplier)
      if imc < 18.5: imc_recommendation = "Bajo peso"
      elif 18.5 <= imc < 25: imc_recommendation = "Peso saludable"
      elif 25 <= imc < 30: imc_recommendation = "Sobrepeso"
      else: imc_recommendation = "Obesidad"
      return {"imc": imc, "tdee": tdee, "imc_recommendation": imc_recommendation}
  \<close>
\<close>

subsection \<open>Floats\<close>

text \<open>
  A Python \<open>float\<close> is an IEEE 754 binary64 number: a finite value, an infinity or a
  NaN. A finite float is represented by the number it denotes; the two zeros are not
  told apart (they compare equal, and no error or comparison of the calculator depends
  on the sign of a zero). Every arithmetic operation returns the exact result rounded to
  the nearest binary64 number, ties to the even significand, and becomes an infinity
  from \<open>2 ^ 1024 - 2 ^ 970\<close> on.
\<close>

datatype pyfloat = Finite real | PosInf | NegInf | NaN

text \<open>Rounding to the nearest integer, ties to the even one.\<close>

definition round_half_even :: "real \<Rightarrow> int" where
  "round_half_even x =
     (let f = \<lfloor>x\<rfloor>; r = x - of_int f
      in if r < 1 / 2 then f else if 1 / 2 < r then f + 1 else if even f then f else f + 1)"

text \<open>For \<open>0 < x\<close>, the exponent \<open>e\<close> with \<open>2 ^ e \<le> x < 2 ^ (e + 1)\<close>.\<close>

definition floor_log2 :: "real \<Rightarrow> int" where
  "floor_log2 x = (if 1 \<le> x then bitlen \<lfloor>x\<rfloor> - 1 else - bitlen (\<lceil>1 / x\<rceil> - 1))"

text \<open>
  \<open>rnd64 x\<close> is the binary64 number nearest to \<open>x\<close>. The significand has 53 bits, so the
  spacing of the floats around \<open>x\<close> is \<open>2 ^ (e - 52)\<close>, where \<open>e\<close> is the exponent of \<open>x\<close>
  and at least \<open>-1022\<close> (below that the floats are subnormal and evenly spaced).
\<close>

definition rnd64 :: "real \<Rightarrow> pyfloat" where
  "rnd64 x =
     (if x = 0 then Finite 0
      else
        let u = 2 powi (max (floor_log2 \<bar>x\<bar>) (- 1022) - 52);
            r = of_int (round_half_even (\<bar>x\<bar> / u)) * u
        in if 2 ^ 1024 \<le> r then (if 0 < x then PosInf else NegInf)
           else Finite (sgn x * r))"

text \<open>A float literal of the source denotes the float nearest to the decimal written.\<close>

definition float_literal :: "real \<Rightarrow> pyfloat" where
  "float_literal x = rnd64 x"

fun is_negative :: "pyfloat \<Rightarrow> bool" where
  "is_negative (Finite a) = (a < 0)"
| "is_negative NegInf = True"
| "is_negative _ = False"

fun fneg :: "pyfloat \<Rightarrow> pyfloat" where
  "fneg (Finite a) = Finite (- a)"
| "fneg PosInf = NegInf"
| "fneg NegInf = PosInf"
| "fneg NaN = NaN"

fun fadd :: "pyfloat \<Rightarrow> pyfloat \<Rightarrow> pyfloat" where
  "fadd (Finite a) (Finite b) = rnd64 (a + b)"
| "fadd NaN _ = NaN"
| "fadd _ NaN = NaN"
| "fadd PosInf NegInf = NaN"
| "fadd NegInf PosInf = NaN"
| "fadd PosInf _ = PosInf"
| "fadd NegInf _ = NegInf"
| "fadd _ PosInf = PosInf"
| "fadd _ NegInf = NegInf"

definition fsub :: "pyfloat \<Rightarrow> pyfloat \<Rightarrow> pyfloat" where
  "fsub x y = fadd x (fneg y)"

fun fmul :: "pyfloat \<Rightarrow> pyfloat \<Rightarrow> pyfloat" where
  "fmul (Finite a) (Finite b) = rnd64 (a * b)"
| "fmul NaN _ = NaN"
| "fmul _ NaN = NaN"
| "fmul x y =
     (if x = Finite 0 \<or> y = Finite 0 then NaN
      else if is_negative x = is_negative y then PosInf else NegInf)"

text \<open>
  Float division raises \<open>ZeroDivisionError\<close> when the divisor is zero, whatever the
  dividend; a quotient too large for a float is an infinity, without an error.
\<close>

fun fdiv :: "pyfloat \<Rightarrow> pyfloat \<Rightarrow> pyerr + pyfloat" where
  "fdiv x (Finite b) =
     (if b = 0 then Inl ZeroDivisionError
      else case x of
             Finite a \<Rightarrow> Inr (rnd64 (a / b))
           | NaN \<Rightarrow> Inr NaN
           | _ \<Rightarrow> Inr (if is_negative x = (b < 0) then PosInf else NegInf))"
| "fdiv NaN _ = Inr NaN"
| "fdiv _ NaN = Inr NaN"
| "fdiv (Finite a) _ = Inr (Finite 0)"
| "fdiv _ _ = Inr NaN"

text \<open>
  \<open>x ** 2\<close> on a float: the square, with \<open>OverflowError\<close> when a finite base has a
  square too large for a float. (The power of the C library is taken to be correctly
  rounded for the exponent 2.)
\<close>

fun fpow2 :: "pyfloat \<Rightarrow> pyerr + pyfloat" where
  "fpow2 (Finite a) =
     (case rnd64 (a * a) of Finite r \<Rightarrow> Inr (Finite r) | _ \<Rightarrow> Inl OverflowError)"
| "fpow2 PosInf = Inr PosInf"
| "fpow2 NegInf = Inr PosInf"
| "fpow2 NaN = Inr NaN"

text \<open>\<open>round(x, 2)\<close> on a float: the float nearest to \<open>x\<close> rounded to two decimals.\<close>

fun fround2 :: "pyfloat \<Rightarrow> pyfloat" where
  "fround2 (Finite a) = rnd64 (of_int (round_half_even (a * 100)) / 100)"
| "fround2 x = x"

text \<open>\<open>round(x)\<close> on a float: an \<open>int\<close>; infinities and NaN have none.\<close>

fun fround :: "pyfloat \<Rightarrow> pyerr + int" where
  "fround (Finite a) = Inr (round_half_even a)"
| "fround NaN = Inl ValueError"
| "fround _ = Inl OverflowError"

text \<open>Comparisons; every comparison with a NaN is false.\<close>

fun flt :: "pyfloat \<Rightarrow> pyfloat \<Rightarrow> bool" where
  "flt NaN _ = False"
| "flt _ NaN = False"
| "flt (Finite a) (Finite b) = (a < b)"
| "flt _ NegInf = False"
| "flt NegInf _ = True"
| "flt PosInf _ = False"
| "flt _ PosInf = True"

fun fle :: "pyfloat \<Rightarrow> pyfloat \<Rightarrow> bool" where
  "fle NaN _ = False"
| "fle _ NaN = False"
| "fle (Finite a) (Finite b) = (a \<le> b)"
| "fle NegInf _ = True"
| "fle _ PosInf = True"
| "fle _ _ = False"

subsection \<open>Values and operators\<close>

text \<open>
  The values a profile holds: \<open>None\<close>, an \<open>int\<close>, a \<open>float\<close> or a \<open>str\<close> (the column
  types of the \<open>users\<close> table).
\<close>

datatype pyval = PNone | PInt int | PFloat pyfloat | PStr pystr

text \<open>Sequencing: the first error raised ends the computation.\<close>

definition and_then :: "pyerr + 'a \<Rightarrow> ('a \<Rightarrow> pyerr + 'b) \<Rightarrow> pyerr + 'b" where
  "and_then m f = (case m of Inl e \<Rightarrow> Inl e | Inr x \<Rightarrow> f x)"

text \<open>An \<open>int\<close> operand of a float operation is converted to the nearest float.\<close>

definition int_to_float :: "int \<Rightarrow> pyerr + pyfloat" where
  "int_to_float n =
     (case rnd64 (of_int n) of Finite r \<Rightarrow> Inr (Finite r) | _ \<Rightarrow> Inl OverflowError)"

text \<open>\<open>v / w\<close>: true division; on numbers the result is always a float.\<close>

fun py_truediv :: "pyval \<Rightarrow> pyval \<Rightarrow> pyerr + pyfloat" where
  "py_truediv (PInt a) (PInt b) =
     (if b = 0 then Inl ZeroDivisionError
      else case rnd64 (of_int a / of_int b) of
             Finite r \<Rightarrow> Inr (Finite r)
           | _ \<Rightarrow> Inl OverflowError)"
| "py_truediv (PFloat x) (PFloat y) = fdiv x y"
| "py_truediv (PInt a) (PFloat y) = and_then (int_to_float a) (\<lambda>x. fdiv x y)"
| "py_truediv (PFloat x) (PInt b) = and_then (int_to_float b) (\<lambda>y. fdiv x y)"
| "py_truediv _ _ = Inl TypeError"

text \<open>\<open>v * w\<close>; an \<open>int\<close> times a \<open>str\<close> repeats the string.\<close>

fun py_mul :: "pyval \<Rightarrow> pyval \<Rightarrow> pyerr + pyval" where
  "py_mul (PInt a) (PInt b) = Inr (PInt (a * b))"
| "py_mul (PFloat x) (PFloat y) = Inr (PFloat (fmul x y))"
| "py_mul (PInt a) (PFloat y) = and_then (int_to_float a) (\<lambda>x. Inr (PFloat (fmul x y)))"
| "py_mul (PFloat x) (PInt b) = and_then (int_to_float b) (\<lambda>y. Inr (PFloat (fmul x y)))"
| "py_mul (PInt a) (PStr s) = Inr (PStr (concat (replicate (nat a) s)))"
| "py_mul (PStr s) (PInt b) = Inr (PStr (concat (replicate (nat b) s)))"
| "py_mul _ _ = Inl TypeError"

fun py_add :: "pyval \<Rightarrow> pyval \<Rightarrow> pyerr + pyval" where
  "py_add (PInt a) (PInt b) = Inr (PInt (a + b))"
| "py_add (PFloat x) (PFloat y) = Inr (PFloat (fadd x y))"
| "py_add (PInt a) (PFloat y) = and_then (int_to_float a) (\<lambda>x. Inr (PFloat (fadd x y)))"
| "py_add (PFloat x) (PInt b) = and_then (int_to_float b) (\<lambda>y. Inr (PFloat (fadd x y)))"
| "py_add (PStr s) (PStr t) = Inr (PStr (s @ t))"
| "py_add _ _ = Inl TypeError"

fun py_sub :: "pyval \<Rightarrow> pyval \<Rightarrow> pyerr + pyval" where
  "py_sub (PInt a) (PInt b) = Inr (PInt (a - b))"
| "py_sub (PFloat x) (PFloat y) = Inr (PFloat (fsub x y))"
| "py_sub (PInt a) (PFloat y) = and_then (int_to_float a) (\<lambda>x. Inr (PFloat (fsub x y)))"
| "py_sub (PFloat x) (PInt b) = and_then (int_to_float b) (\<lambda>y. Inr (PFloat (fsub x y)))"
| "py_sub _ _ = Inl TypeError"

text \<open>\<open>round(v)\<close>: an \<open>int\<close> is its own rounding.\<close>

fun py_round :: "pyval \<Rightarrow> pyerr + int" where
  "py_round (PInt a) = Inr a"
| "py_round (PFloat x) = fround x"
| "py_round _ = Inl TypeError"

text \<open>
  \<open>v.lower()\<close> exists on a \<open>str\<close> only. The calculator compares the lowered string with
  ASCII strings only, so the model lowers the characters whose lowercase is an ASCII
  letter: the ASCII capitals and U+212A (KELVIN SIGN). Every other character stays as it
  is; Python maps some of them to other characters that are not ASCII either, which
  changes no comparison with an ASCII string.
\<close>

definition lower_char :: "nat \<Rightarrow> nat" where
  "lower_char c = (if 0x41 \<le> c \<and> c \<le> 0x5A then c + 32 else if c = 0x212A then 0x6B else c)"

fun py_lower :: "pyval \<Rightarrow> pyerr + pystr" where
  "py_lower (PStr s) = Inr (map lower_char s)"
| "py_lower _ = Inl AttributeError"

subsection \<open>The calculator\<close>

text \<open>A profile is a dictionary; \<open>user_data[key]\<close> raises \<open>KeyError\<close> on a missing key.\<close>

type_synonym pydict = "pystr \<rightharpoonup> pyval"

definition item :: "pydict \<Rightarrow> pystr \<Rightarrow> pyerr + pyval" where
  "item d key = (case d key of None \<Rightarrow> Inl KeyError | Some v \<Rightarrow> Inr v)"

text \<open>The dictionary returned.\<close>

record profile_data =
  imc :: "pyfloat option"
  tdee :: "int option"
  imc_recommendation :: pystr

text \<open>The guard of the first line: every key is present and its value is not \<open>None\<close>.\<close>

definition all_present :: "pydict \<Rightarrow> bool" where
  "all_present user_data \<longleftrightarrow>
     list_all (\<lambda>key. user_data key \<noteq> None \<and> user_data key \<noteq> Some PNone)
       [ascii ''weight'', ascii ''height'', ascii ''age'', ascii ''gender'',
        ascii ''activity_level'']"

text \<open>The variable \<open>imc\<close>: \<open>height_m\<close>, then the quotient rounded to two decimals.\<close>

definition imc_of :: "pydict \<Rightarrow> pyerr + pyfloat" where
  "imc_of user_data =
     and_then (item user_data (ascii ''height'')) (\<lambda>height.
     and_then (py_truediv height (PInt 100)) (\<lambda>height_m.
     and_then (item user_data (ascii ''weight'')) (\<lambda>weight.
     and_then (fpow2 height_m) (\<lambda>square.
     and_then (py_truediv weight (PFloat square)) (\<lambda>quotient.
     Inr (fround2 quotient))))))"

text \<open>The variable \<open>bmr\<close>: the two branches on the gender, each with its own formula.\<close>

definition bmr_of :: "pydict \<Rightarrow> pyerr + pyval" where
  "bmr_of user_data =
     and_then (item user_data (ascii ''gender'')) (\<lambda>gender.
     and_then (py_lower gender) (\<lambda>lowered.
     if lowered = ascii ''masculino'' then
       and_then (item user_data (ascii ''weight'')) (\<lambda>weight.
       and_then (py_mul (PInt 10) weight) (\<lambda>a.
       and_then (item user_data (ascii ''height'')) (\<lambda>height.
       and_then (py_mul (PFloat (float_literal 6.25)) height) (\<lambda>b.
       and_then (py_add a b) (\<lambda>c.
       and_then (item user_data (ascii ''age'')) (\<lambda>age.
       and_then (py_mul (PInt 5) age) (\<lambda>d.
       and_then (py_sub c d) (\<lambda>e.
       py_add e (PInt 5)))))))))
     else
       and_then (item user_data (ascii ''weight'')) (\<lambda>weight.
       and_then (py_mul (PInt 10) weight) (\<lambda>a.
       and_then (item user_data (ascii ''height'')) (\<lambda>height.
       and_then (py_mul (PFloat (float_literal 6.25)) height) (\<lambda>b.
       and_then (py_add a b) (\<lambda>c.
       and_then (item user_data (ascii ''age'')) (\<lambda>age.
       and_then (py_mul (PInt 5) age) (\<lambda>d.
       and_then (py_sub c d) (\<lambda>e.
       py_sub e (PInt 161)))))))))))"

definition activity_multipliers :: "(pystr \<times> pyfloat) list" where
  "activity_multipliers =
     [(ascii ''sedentario'', float_literal 1.2), (ascii ''ligero'', float_literal 1.375),
      (ascii ''moderado'', float_literal 1.55), (ascii ''activo'', float_literal 1.725),
      (ascii ''muy activo'', float_literal 1.9)]"

text \<open>The variable \<open>multiplier\<close>: \<open>dict.get\<close> with the default 1.2.\<close>

definition multiplier_of :: "pydict \<Rightarrow> pyerr + pyfloat" where
  "multiplier_of user_data =
     and_then (item user_data (ascii ''activity_level'')) (\<lambda>activity_level.
     and_then (py_lower activity_level) (\<lambda>lowered.
     Inr (case map_of activity_multipliers lowered of
            Some m \<Rightarrow> m
          | None \<Rightarrow> float_literal 1.2)))"

text \<open>
  The variable \<open>imc_recommendation\<close>. \<open>imc\<close> is a float; comparing it with the \<open>int\<close>
  literals 25 and 30 compares the exact values.
\<close>

definition imc_recommendation_of :: "pyfloat \<Rightarrow> pystr" where
  "imc_recommendation_of x =
     (if flt x (float_literal 18.5) then ascii ''Bajo peso''
      else if fle (float_literal 18.5) x \<and> flt x (Finite 25) then ascii ''Peso saludable''
      else if fle (Finite 25) x \<and> flt x (Finite 30) then ascii ''Sobrepeso''
      else ascii ''Obesidad'')"

definition incomplete :: profile_data where
  "incomplete = \<lparr>imc = None, tdee = None, imc_recommendation = ascii ''Completa tu perfil''\<rparr>"

definition calculate_profile_data :: "pydict \<Rightarrow> pyerr + profile_data" where
  "calculate_profile_data user_data =
     (if \<not> all_present user_data then Inr incomplete
      else
        and_then (imc_of user_data) (\<lambda>imc_value.
        and_then (bmr_of user_data) (\<lambda>bmr.
        and_then (multiplier_of user_data) (\<lambda>multiplier.
        and_then (py_mul bmr (PFloat multiplier)) (\<lambda>product.
        and_then (py_round product) (\<lambda>tdee_value.
        Inr \<lparr>imc = Some imc_value, tdee = Some tdee_value,
             imc_recommendation = imc_recommendation_of imc_value\<rparr>))))))"

subsection \<open>The calculator as the specification words it\<close>

text \<open>
  \<open>missing_or_null\<close>: at least one of the five physical attributes is missing or null.
  \<open>same_ignoring_case s key\<close>: \<open>s\<close> is the lowercase word \<open>key\<close>, each letter in either
  case. \<open>mifflin_st_jeor\<close>: the common part \<open>10 * weight + 6.25 * height - 5 * age\<close> of the
  two formulas, in Python's arithmetic.
\<close>

definition required_keys :: "pystr list" where
  "required_keys =
     [ascii ''weight'', ascii ''height'', ascii ''age'', ascii ''gender'', ascii ''activity_level'']"

definition missing_or_null :: "pydict \<Rightarrow> bool" where
  "missing_or_null user_data \<longleftrightarrow>
     (\<exists>key \<in> set required_keys. user_data key = None \<or> user_data key = Some PNone)"

definition same_ignoring_case :: "pystr \<Rightarrow> pystr \<Rightarrow> bool" where
  "same_ignoring_case s key \<longleftrightarrow>
     list_all2 (\<lambda>c k. c = k \<or> (0x61 \<le> k \<and> k \<le> 0x7A \<and> c + 32 = k)) s key"

definition mifflin_st_jeor :: "pyval \<Rightarrow> pyval \<Rightarrow> pyval \<Rightarrow> pyerr + pyval" where
  "mifflin_st_jeor weight height age =
     and_then (py_mul (PInt 10) weight) (\<lambda>a.
     and_then (py_mul (PFloat (float_literal 6.25)) height) (\<lambda>b.
     and_then (py_add a b) (\<lambda>c.
     and_then (py_mul (PInt 5) age) (\<lambda>d.
     py_sub c d))))"

subsection \<open>Profiles of the scenarios\<close>

text \<open>
  The profiles of the specification's scenarios, with the types of the \<open>users\<close> table:
  \<open>weight\<close> and \<open>height\<close> are floats, \<open>age\<close> is an \<open>int\<close>.
\<close>

definition male_profile :: pydict where
  "male_profile =
     [ascii ''weight'' \<mapsto> PFloat (Finite 70), ascii ''height'' \<mapsto> PFloat (Finite 175),
      ascii ''age'' \<mapsto> PInt 30, ascii ''gender'' \<mapsto> PStr (ascii ''Masculino''),
      ascii ''activity_level'' \<mapsto> PStr (ascii ''moderado'')]"


definition female_profile :: pydict where
  "female_profile =
     [ascii ''weight'' \<mapsto> PFloat (Finite 70), ascii ''height'' \<mapsto> PFloat (Finite 175),
      ascii ''age'' \<mapsto> PInt 30, ascii ''gender'' \<mapsto> PStr (ascii ''Femenino''),
      ascii ''activity_level'' \<mapsto> PStr (ascii ''sedentario'')]"

text \<open>The first scenario with the height 0, and with a negative weight and age.\<close>

definition zero_height_profile :: pydict where
  "zero_height_profile = male_profile(ascii ''height'' \<mapsto> PFloat (Finite 0))"

definition negative_profile :: pydict where
  "negative_profile =
     male_profile(ascii ''weight'' \<mapsto> PFloat (Finite (- 70)), ascii ''age'' \<mapsto> PInt (- 30))"

text \<open>
  A profile whose body mass index is its weight: the height is one metre. Its gender and
  its activity level are words that the calculator does not know.
\<close>

definition bmi_profile :: "real \<Rightarrow> pydict" where
  "bmi_profile w =
     [ascii ''weight'' \<mapsto> PFloat (float_literal w), ascii ''height'' \<mapsto> PFloat (Finite 100),
      ascii ''age'' \<mapsto> PInt 30, ascii ''gender'' \<mapsto> PStr (ascii ''x''),
      ascii ''activity_level'' \<mapsto> PStr (ascii ''flying'')]"

section \<open>Properties of the matcher\<close>

lemma digit_value_below: "c < 0x30 \<Longrightarrow> digit_value c = None"
  by (simp add: digit_value_def decimal_zeros_def)

lemma digit_value_latin: "0x3A \<le> c \<Longrightarrow> c < 0x660 \<Longrightarrow> digit_value c = None"
  by (simp add: digit_value_def decimal_zeros_def)

lemma digit_value_ogham: "digit_value 0x1680 = None"
  by (simp add: digit_value_def decimal_zeros_def)

lemma digit_value_punct: "0x2000 \<le> c \<Longrightarrow> c \<le> 0x3000 \<Longrightarrow> digit_value c = None"
  by (simp add: digit_value_def decimal_zeros_def)

lemma space_not_digit: "is_space c \<Longrightarrow> \<not> is_digit c"
  unfolding is_space_def is_digit_def
  by (elim disjE conjE) (simp_all add: digit_value_below digit_value_latin digit_value_ogham digit_value_punct)

lemma atom_matches_Digit: "atom_matches Digit = is_digit"
  by (rule ext) simp

lemma atom_matches_Space: "atom_matches Space = is_space"
  by (rule ext) simp

lemma match_star_last: "match_items [Star a] t = Some [takeWhile (atom_matches a) t]"
  by (induction t) simp_all

lemma match_plus_last:
  "match_items [Plus a] t =
     (if takeWhile (atom_matches a) t = [] then None else Some [takeWhile (atom_matches a) t])"
  by (cases t) (simp_all add: match_star_last)

lemma match_space_digits:
  "match_items [Star Space, Plus Digit] t =
     (if takeWhile is_digit (dropWhile is_space t) = [] then None
      else Some [takeWhile is_space t, takeWhile is_digit (dropWhile is_space t)])"
proof (induction t)
  case Nil
  show ?case by simp
next
  case (Cons c cs)
  have plus: "match_items [Plus Digit] (c # cs) =
     (if takeWhile is_digit (c # cs) = [] then None else Some [takeWhile is_digit (c # cs)])"
    using match_plus_last [of Digit "c # cs"] by (simp only: atom_matches_Digit)
  show ?case
  proof (cases "is_space c")
    case True
    then have nd: "\<not> is_digit c" by (rule space_not_digit)
    have step: "match_items [Star Space, Plus Digit] (c # cs) =
      (case match_items [Star Space, Plus Digit] cs of
         Some (g # gs) \<Rightarrow> Some ((c # g) # gs)
       | _ \<Rightarrow> map_option (\<lambda>gs. [] # gs) (match_items [Plus Digit] (c # cs)))"
      using True by simp
    show ?thesis
      unfolding step Cons.IH plus using True nd by simp
  next
    case False
    have step: "match_items [Star Space, Plus Digit] (c # cs) =
       map_option (\<lambda>gs. [] # gs) (match_items [Plus Digit] (c # cs))"
      using False by simp
    show ?thesis
      unfolding step plus using False by simp
  qed
qed

lemma match_literals:
  "match_items (map (\<lambda>p. One (Lit p)) ps @ rest) t =
     (if length ps \<le> length t \<and> list_all2 ignorecase_eq ps (take (length ps) t)
      then map_option (\<lambda>gs. map (\<lambda>c. [c]) (take (length ps) t) @ gs)
             (match_items rest (drop (length ps) t))
      else None)"
proof (induction ps arbitrary: t)
  case Nil
  show ?case by (cases "match_items rest t") simp_all
next
  case (Cons p ps)
  show ?case
  proof (cases t)
    case Nil
    then show ?thesis by simp
  next
    case (Cons c cs)
    show ?thesis
      unfolding Cons
      by (simp add: Cons.IH option.map_comp comp_def)
  qed
qed

lemma match_pattern:
  "match_items pattern t =
     (if label_at t \<and> digits_after t \<noteq> []
      then Some (map (\<lambda>c. [c]) (take (length label) t) @
                 [takeWhile is_space (drop (length label) t), digits_after t])
      else None)"
  unfolding pattern_def match_literals match_space_digits label_at_def digits_after_def
  by simp

lemma re_search_Some:
  "re_search t = Some g \<longleftrightarrow>
     (\<exists>i. label_at (drop i t) \<and> digits_after (drop i t) = g \<and> g \<noteq> [] \<and>
          (\<forall>j<i. \<not> (label_at (drop j t) \<and> digits_after (drop j t) \<noteq> [])))"
  (is "?L t \<longleftrightarrow> ?R t")
proof (induction t)
  case Nil
  show ?case by (auto simp: match_pattern label_at_def label_def ascii_def)
next
  case (Cons c cs)
  show ?case
  proof (cases "label_at (c # cs) \<and> digits_after (c # cs) \<noteq> []")
    case True
    then have l: "re_search (c # cs) = Some (digits_after (c # cs))"
      by (simp add: match_pattern)
    show ?thesis
    proof
      assume "re_search (c # cs) = Some g"
      with l have g: "g = digits_after (c # cs)" by simp
      show "?R (c # cs)"
        by (rule exI [of _ 0]) (use True g in simp)
    next
      assume "?R (c # cs)"
      then obtain i where i: "label_at (drop i (c # cs))" "digits_after (drop i (c # cs)) = g"
        "g \<noteq> []" "\<forall>j<i. \<not> (label_at (drop j (c # cs)) \<and> digits_after (drop j (c # cs)) \<noteq> [])"
        by blast
      have "i = 0"
      proof (rule ccontr)
        assume "i \<noteq> 0"
        then have "0 < i" by simp
        with i(4) have "\<not> (label_at (drop 0 (c # cs)) \<and> digits_after (drop 0 (c # cs)) \<noteq> [])"
          by blast
        with True show False by simp
      qed
      with i(2) l show "re_search (c # cs) = Some g" by simp
    qed
  next
    case False
    then have "match_items pattern (c # cs) = None"
      unfolding match_pattern by auto
    then have l: "re_search (c # cs) = re_search cs"
      by simp
    show ?thesis
    proof
      assume "re_search (c # cs) = Some g"
      with l Cons.IH obtain i where i: "label_at (drop i cs)" "digits_after (drop i cs) = g"
        "g \<noteq> []" "\<forall>j<i. \<not> (label_at (drop j cs) \<and> digits_after (drop j cs) \<noteq> [])"
        by auto
      have "\<forall>j<Suc i. \<not> (label_at (drop j (c # cs)) \<and> digits_after (drop j (c # cs)) \<noteq> [])"
      proof (intro allI impI)
        fix j assume "j < Suc i"
        show "\<not> (label_at (drop j (c # cs)) \<and> digits_after (drop j (c # cs)) \<noteq> [])"
        proof (cases j)
          case 0
          with False show ?thesis by simp
        next
          case (Suc k)
          with \<open>j < Suc i\<close> i(4) show ?thesis by simp
        qed
      qed
      with i(1-3) show "?R (c # cs)"
        by (intro exI [of _ "Suc i"]) simp
    next
      assume "?R (c # cs)"
      then obtain i where i: "label_at (drop i (c # cs))" "digits_after (drop i (c # cs)) = g"
        "g \<noteq> []" "\<forall>j<i. \<not> (label_at (drop j (c # cs)) \<and> digits_after (drop j (c # cs)) \<noteq> [])"
        by blast
      from i(1-3) False have "i \<noteq> 0" by (cases i) auto
      then obtain k where k: "i = Suc k" by (cases i) auto
      have "\<forall>j<k. \<not> (label_at (drop j cs) \<and> digits_after (drop j cs) \<noteq> [])"
      proof (intro allI impI)
        fix j assume "j < k"
        then have "Suc j < i" using k by simp
        with i(4) have "\<not> (label_at (drop (Suc j) (c # cs)) \<and> digits_after (drop (Suc j) (c # cs)) \<noteq> [])"
          by blast
        then show "\<not> (label_at (drop j cs) \<and> digits_after (drop j cs) \<noteq> [])" by simp
      qed
      with i(1-3) k have "?R cs" by (intro exI [of _ k]) simp
      with Cons.IH l show "re_search (c # cs) = Some g" by simp
    qed
  qed
qed

lemma re_search_None:
  "re_search t = None \<longleftrightarrow> (\<forall>i. \<not> (label_at (drop i t) \<and> digits_after (drop i t) \<noteq> []))"
proof (induction t)
  case Nil
  show ?case by (auto simp: match_pattern label_at_def label_def ascii_def)
next
  case (Cons c cs)
  show ?case
  proof (cases "label_at (c # cs) \<and> digits_after (c # cs) \<noteq> []")
    case True
    then have "re_search (c # cs) \<noteq> None" by (simp add: match_pattern)
    moreover from True have "label_at (drop 0 (c # cs)) \<and> digits_after (drop 0 (c # cs)) \<noteq> []"
      by simp
    ultimately show ?thesis by blast
  next
    case False
    then have "match_items pattern (c # cs) = None"
      unfolding match_pattern by auto
    then have l: "re_search (c # cs) = re_search cs"
      by simp
    have "(\<forall>i. \<not> (label_at (drop i (c # cs)) \<and> digits_after (drop i (c # cs)) \<noteq> [])) \<longleftrightarrow>
          (\<forall>i. \<not> (label_at (drop i cs) \<and> digits_after (drop i cs) \<noteq> []))"
    proof
      assume a: "\<forall>i. \<not> (label_at (drop i (c # cs)) \<and> digits_after (drop i (c # cs)) \<noteq> [])"
      show "\<forall>i. \<not> (label_at (drop i cs) \<and> digits_after (drop i cs) \<noteq> [])"
      proof
        fix i from a have "\<not> (label_at (drop (Suc i) (c # cs)) \<and> digits_after (drop (Suc i) (c # cs)) \<noteq> [])"
          by blast
        then show "\<not> (label_at (drop i cs) \<and> digits_after (drop i cs) \<noteq> [])" by simp
      qed
    next
      assume a: "\<forall>i. \<not> (label_at (drop i cs) \<and> digits_after (drop i cs) \<noteq> [])"
      show "\<forall>i. \<not> (label_at (drop i (c # cs)) \<and> digits_after (drop i (c # cs)) \<noteq> [])"
      proof
        fix i show "\<not> (label_at (drop i (c # cs)) \<and> digits_after (drop i (c # cs)) \<noteq> [])"
          using a False by (cases i) simp_all
      qed
    qed
    with l Cons.IH show ?thesis by simp
  qed
qed

lemma decimal_reading_Cons:
  "decimal_reading (c # cs) = digit_of c * 10 ^ length cs + decimal_reading cs"
  unfolding decimal_reading_def
  by (simp add: sum.lessThan_Suc_shift del: sum.lessThan_Suc)

lemma decimal_digits:
  "list_all is_digit ds \<Longrightarrow> decimal acc ds = Some (acc * 10 ^ length ds + decimal_reading ds)"
proof (induction ds arbitrary: acc)
  case Nil
  show ?case by (simp add: decimal_reading_def)
next
  case (Cons c cs)
  from Cons.prems obtain d where d: "digit_value c = Some d"
    by (auto simp: is_digit_def)
  from Cons.prems have "list_all is_digit cs" by simp
  then have "decimal (10 * acc + d) cs = Some ((10 * acc + d) * 10 ^ length cs + decimal_reading cs)"
    by (rule Cons.IH)
  then show ?case
    by (simp add: d decimal_reading_Cons digit_of_def algebra_simps)
qed

lemma list_all_digits_after: "list_all is_digit (digits_after t)"
  unfolding digits_after_def list_all_iff by (auto dest: set_takeWhileD)

lemma py_int_digits:
  assumes "list_all is_digit ds" and "ds \<noteq> []"
  shows "py_int ds =
     (if length ds \<le> int_max_str_digits then Inr (int (decimal_reading ds)) else Inl ValueError)"
  using assms by (simp add: py_int_def decimal_digits)

lemma occurs_at_iff:
  "occurs_at t i ds \<longleftrightarrow> label_at (drop i t) \<and> digits_after (drop i t) = ds \<and> ds \<noteq> []"
proof
  assume "occurs_at t i ds"
  then obtain pre lab ws rest where t: "t = pre @ lab @ ws @ ds @ rest" and i: "length pre = i"
    and lab: "list_all2 ignorecase_eq label lab" and ws: "list_all is_space ws"
    and ds: "ds \<noteq> []" "list_all is_digit ds" and rest: "rest = [] \<or> \<not> is_digit (hd rest)"
    unfolding occurs_at_def by blast
  from lab have len: "length lab = length label" by (simp add: list_all2_lengthD)
  have d: "drop i t = lab @ ws @ ds @ rest" using t i by simp
  have la: "label_at (drop i t)"
    unfolding label_at_def d using lab len by simp
  have "drop (length label) (drop i t) = ws @ ds @ rest"
    unfolding d using len by simp
  moreover have "dropWhile is_space (ws @ ds @ rest) = dropWhile is_space (ds @ rest)"
    using ws by (intro dropWhile_append2) (simp add: list_all_iff)
  moreover have "dropWhile is_space (ds @ rest) = ds @ rest"
  proof -
    from ds obtain x xs where x: "ds = x # xs" by (cases ds) auto
    with ds(2) have "is_digit x" by simp
    then have "\<not> is_space x" using space_not_digit by blast
    then show ?thesis by (simp add: x)
  qed
  moreover have "takeWhile is_digit (ds @ rest) = ds"
  proof -
    have "takeWhile is_digit (ds @ rest) = ds @ takeWhile is_digit rest"
      using ds(2) by (intro takeWhile_append2) (simp add: list_all_iff)
    moreover have "takeWhile is_digit rest = []"
      using rest by (cases rest) auto
    ultimately show ?thesis by simp
  qed
  ultimately have "digits_after (drop i t) = ds"
    unfolding digits_after_def by simp
  with la ds(1) show "label_at (drop i t) \<and> digits_after (drop i t) = ds \<and> ds \<noteq> []"
    by simp
next
  assume a: "label_at (drop i t) \<and> digits_after (drop i t) = ds \<and> ds \<noteq> []"
  define u where "u = drop i t"
  define v where "v = drop (length label) u"
  define w where "w = dropWhile is_space v"
  from a have la: "length label \<le> length u" "list_all2 ignorecase_eq label (take (length label) u)"
    and dsw: "ds = takeWhile is_digit w" and ne: "ds \<noteq> []"
    unfolding label_at_def digits_after_def u_def v_def w_def by auto
  have "i \<le> length t"
  proof (rule ccontr)
    assume "\<not> i \<le> length t"
    then have "u = []" unfolding u_def by simp
    with la(1) show False by (simp add: label_def ascii_def)
  qed
  then have len: "length (take i t) = i" by simp
  have "t = take i t @ u" unfolding u_def by simp
  also have "u = take (length label) u @ v" unfolding v_def by simp
  also have "v = takeWhile is_space v @ w" unfolding w_def by simp
  also have "w = ds @ dropWhile is_digit w" unfolding dsw by simp
  finally have t: "t = take i t @ take (length label) u @ takeWhile is_space v @ ds @ dropWhile is_digit w" .
  have sp: "list_all is_space (takeWhile is_space v)"
    unfolding list_all_iff by (auto dest: set_takeWhileD)
  have dg: "list_all is_digit ds"
    unfolding dsw list_all_iff by (auto dest: set_takeWhileD)
  have rest: "dropWhile is_digit w = [] \<or> \<not> is_digit (hd (dropWhile is_digit w))"
    using hd_dropWhile [of is_digit w] by blast
  show "occurs_at t i ds"
    unfolding occurs_at_def
    using t len la(2) sp ne dg rest by blast
qed

lemma re_search_first:
  "re_search t = Some g \<longleftrightarrow> (\<exists>i. first_occurrence t i g)"
  unfolding re_search_Some first_occurrence_def occurs_at_iff by auto

lemma re_search_none:
  "re_search t = None \<longleftrightarrow> (\<forall>i ds. \<not> occurs_at t i ds)"
  unfolding re_search_None occurs_at_iff by auto

lemma extract_at_first_occurrence:
  assumes "first_occurrence t i ds"
  shows "extract_total_calories t =
     (if length ds \<le> int_max_str_digits then Inr (int (decimal_reading ds)) else Inl ValueError)"
proof -
  from assms have s: "re_search t = Some ds" using re_search_first by blast
  from assms have "occurs_at t i ds" by (simp add: first_occurrence_def)
  then have "ds \<noteq> []" "list_all is_digit ds"
    using list_all_digits_after [of "drop i t"] by (auto simp: occurs_at_iff)
  then show ?thesis
    by (simp add: extract_total_calories_def s py_int_digits)
qed

lemma extract_no_occurrence:
  assumes "\<forall>i ds. \<not> occurs_at t i ds"
  shows "extract_total_calories t = Inr 0"
  using assms by (simp add: extract_total_calories_def re_search_none [symmetric])

lemma occurrence_cases:
  "(\<forall>i ds. \<not> occurs_at t i ds) \<or> (\<exists>i ds. first_occurrence t i ds)"
  using re_search_none [of t] re_search_first [of t] by (cases "re_search t") auto

lemma ignorecase_eq_refl: "ignorecase_eq p p"
  by (simp add: ignorecase_eq_def)

lemma first_occurrence_at_start:
  assumes "list_all is_space ws" and "ds \<noteq> []" and "list_all is_digit ds"
  shows "first_occurrence (label @ ws @ ds) 0 ds"
proof -
  have "list_all2 ignorecase_eq label label"
    by (rule list_all2_refl) (rule ignorecase_eq_refl)
  then have "occurs_at (label @ ws @ ds) 0 ds"
    unfolding occurs_at_def using assms
    by (intro exI [of _ "[]"] exI [of _ label] exI [of _ ws]) simp
  then show ?thesis by (simp add: first_occurrence_def)
qed

lemma is_digit_ascii: "0x30 \<le> c \<Longrightarrow> c \<le> 0x39 \<Longrightarrow> is_digit c"
  by (simp add: is_digit_def digit_value_def decimal_zeros_def)

lemma first_occurrence_zeros:
  "first_occurrence (label @ replicate 4301 0x30) 0 (replicate 4301 0x30)"
  using first_occurrence_at_start [of "[]" "replicate 4301 0x30"]
  by (simp add: list_all_iff is_digit_ascii)

lemma first_occurrence_nines:
  "first_occurrence (label @ [0x20] @ replicate 4301 0x39) 0 (replicate 4301 0x39)"
  using first_occurrence_at_start [of "[0x20]" "replicate 4301 0x39"]
  by (simp add: list_all_iff is_digit_ascii is_space_def)

lemma re_search_ex1: "re_search (ascii ''## '' @ label @ ascii '' 450'' @ [10]) = Some (ascii ''450'')"
  by (simp add: label_def ascii_def pattern_def ignorecase_eq_def is_space_def is_digit_def
      digit_value_def decimal_zeros_def)

lemma re_search_ex2: "re_search (ascii ''no mention here'') = None"
  by (simp add: label_def ascii_def pattern_def ignorecase_eq_def is_space_def is_digit_def
      digit_value_def decimal_zeros_def)

lemma decimal_reading_Nil: "decimal_reading [] = 0"
  by (simp add: decimal_reading_def)

lemma dr450: "decimal_reading (ascii ''450'') = 450"
  by (simp add: ascii_def decimal_reading_Cons decimal_reading_Nil digit_of_def digit_value_def
      decimal_zeros_def)

section \<open>Claims about the calorie extractor\<close>

lemmas extractor_defs =
  extract_total_calories_def label_def ascii_def pattern_def ignorecase_eq_def is_space_def
  is_digit_def digit_value_def decimal_zeros_def py_int_def int_max_str_digits_def

text \<open>
  Claim C10. The search for the label is not anchored to the start of a word or of a line.
  In the text \<open>Subtotal Calor[U+00ED]as: 99\<close> the label occurs only as the tail of the longer
  word \<open>Subtotal\<close>; the extractor still matches it there and returns 99, not 0.
\<close>

theorem extract_unanchored:
  "extract_total_calories (ascii ''Sub'' @ label @ ascii '' 99'') = Inr 99"
  by (simp add: extractor_defs)

text \<open>
  Claim C2, as stated: for every text the extractor returns the first digit run after
  the label, read as an integer, and 0 when the label with its digits occurs nowhere.
  It fails where the digit run is longer than \<open>int\<close> converts: on the label, a space and
  4301 nines the run is found at position 0 and the extractor raises \<open>ValueError\<close>.
\<close>

theorem extract_long_run_counterexample:
  "first_occurrence (label @ [0x20] @ replicate 4301 0x39) 0 (replicate 4301 0x39) \<and>
   extract_total_calories (label @ [0x20] @ replicate 4301 0x39) = Inl ValueError"
  using extract_at_first_occurrence [OF first_occurrence_nines] first_occurrence_nines
  by (simp add: int_max_str_digits_def)

text \<open>
  Claim C2, amended: the search is case-insensitive and runs from left to right. When
  the label, optional whitespace and one or more decimal digits occur in the text, and
  the digit run of the first occurrence has at most 4300 digits, the extractor returns
  that run read as a decimal number; when they occur nowhere, it returns 0. In
  particular \<open>Total Calor[U+00ED]as: 450\n\<close> gives 450, \<open>no mention here\<close> gives 0 and
  \<open>totaL calor[U+00ED]as:   12 kcal\<close> gives 12.
\<close>

theorem extract_first_digit_run:
  "(\<forall>i ds. first_occurrence text i ds \<and> length ds \<le> int_max_str_digits \<longrightarrow>
       extract_total_calories text = Inr (int (decimal_reading ds))) \<and>
   ((\<forall>i ds. \<not> occurs_at text i ds) \<longrightarrow> extract_total_calories text = Inr 0) \<and>
   extract_total_calories (label @ ascii '' 450'' @ [10]) = Inr 450 \<and>
   extract_total_calories (ascii ''no mention here'') = Inr 0 \<and>
   extract_total_calories (ascii ''totaL calor'' @ [0xED] @ ascii ''as:   12 kcal'') = Inr 12"
proof (intro conjI allI impI)
  fix i ds
  assume "first_occurrence text i ds \<and> length ds \<le> int_max_str_digits"
  then show "extract_total_calories text = Inr (int (decimal_reading ds))"
    using extract_at_first_occurrence [of "text" i ds] by simp
next
  assume "\<forall>i ds. \<not> occurs_at text i ds"
  then show "extract_total_calories text = Inr 0"
    by (rule extract_no_occurrence)
next
  show "extract_total_calories (label @ ascii '' 450'' @ [10]) = Inr 450"
    by (simp add: extractor_defs)
next
  show "extract_total_calories (ascii ''no mention here'') = Inr 0"
    by (simp add: extractor_defs)
next
  show "extract_total_calories (ascii ''totaL calor'' @ [0xED] @ ascii ''as:   12 kcal'') = Inr 12"
    by (simp add: extractor_defs)
qed

text \<open>
  The hypotheses of the amended claim C2 at concrete texts: in \<open>## Total Calor[U+00ED]as: 450\n\<close>
  the first occurrence has the digit run \<open>450\<close>, and \<open>no mention here\<close> has no occurrence.
\<close>

theorem extract_first_digit_run_witness:
  "(\<exists>i. first_occurrence (ascii ''## '' @ label @ ascii '' 450'' @ [10]) i (ascii ''450'')) \<and>
   length (ascii ''450'') \<le> int_max_str_digits \<and>
   extract_total_calories (ascii ''## '' @ label @ ascii '' 450'' @ [10]) = Inr 450 \<and>
   (\<forall>i ds. \<not> occurs_at (ascii ''no mention here'') i ds) \<and>
   extract_total_calories (ascii ''no mention here'') = Inr 0"
proof -
  let ?t = "ascii ''## '' @ label @ ascii '' 450'' @ [10]"
  from re_search_ex1 obtain i where i: "first_occurrence ?t i (ascii ''450'')"
    using re_search_first by blast
  have len: "length (ascii ''450'') \<le> int_max_str_digits"
    by (simp add: ascii_def int_max_str_digits_def)
  have none: "\<forall>i ds. \<not> occurs_at (ascii ''no mention here'') i ds"
    using re_search_ex2 re_search_none by blast
  from extract_first_digit_run [of ?t] i len
  have "extract_total_calories ?t = Inr (int (decimal_reading (ascii ''450'')))"
    by blast
  moreover from extract_first_digit_run [of "ascii ''no mention here''"] none
  have "extract_total_calories (ascii ''no mention here'') = Inr 0"
    by blast
  ultimately show ?thesis
    using i len none by (auto simp: dr450)
qed

text \<open>
  Claim C8, as stated: the extractor never raises. It fails on the label followed by
  4301 zeros: \<open>int\<close> refuses a string of more than 4300 digits and raises \<open>ValueError\<close>.
\<close>

theorem extract_raises_counterexample:
  "extract_total_calories (label @ replicate 4301 0x30) = Inl ValueError"
  using extract_at_first_occurrence [OF first_occurrence_zeros]
  by (simp add: int_max_str_digits_def)

text \<open>
  Claim C8, amended: a text with no occurrence of the label and its digits gives 0, which
  is a normal return and not an error; a text whose first occurrence has a digit run of
  at most 4300 digits gives a non-negative integer; one whose first occurrence has a
  longer digit run raises \<open>ValueError\<close>. Every text is in one of these cases, every
  integer returned is non-negative, and no other error is raised.
\<close>

theorem extract_nonnegative_or_too_long:
  "((\<forall>i ds. \<not> occurs_at text i ds) \<longrightarrow> extract_total_calories text = Inr 0) \<and>
   (\<forall>i ds. first_occurrence text i ds \<and> length ds \<le> int_max_str_digits \<longrightarrow>
       (\<exists>n. extract_total_calories text = Inr n \<and> 0 \<le> n)) \<and>
   (\<forall>i ds. first_occurrence text i ds \<and> int_max_str_digits < length ds \<longrightarrow>
       extract_total_calories text = Inl ValueError) \<and>
   ((\<forall>i ds. \<not> occurs_at text i ds) \<or> (\<exists>i ds. first_occurrence text i ds)) \<and>
   (\<forall>n. extract_total_calories text = Inr n \<longrightarrow> 0 \<le> n) \<and>
   (\<forall>e. extract_total_calories text = Inl e \<longrightarrow> e = ValueError)"
proof -
  have none: "extract_total_calories text = Inr 0" if "\<forall>i ds. \<not> occurs_at text i ds"
    using that by (rule extract_no_occurrence)
  have some: "extract_total_calories text =
      (if length ds \<le> int_max_str_digits then Inr (int (decimal_reading ds)) else Inl ValueError)"
    if "first_occurrence text i ds" for i ds
    using that by (rule extract_at_first_occurrence)
  have nonneg: "0 \<le> n" if r: "extract_total_calories text = Inr n" for n
  proof -
    from occurrence_cases [of "text"] show ?thesis
    proof
      assume "\<forall>i ds. \<not> occurs_at text i ds"
      then show ?thesis using none r by simp
    next
      assume "\<exists>i ds. first_occurrence text i ds"
      then obtain i ds where "first_occurrence text i ds" by blast
      from some [OF this] r show ?thesis by (simp split: if_splits)
    qed
  qed
  have err: "e = ValueError" if r: "extract_total_calories text = Inl e" for e
  proof -
    from occurrence_cases [of "text"] show ?thesis
    proof
      assume "\<forall>i ds. \<not> occurs_at text i ds"
      then show ?thesis using none r by simp
    next
      assume "\<exists>i ds. first_occurrence text i ds"
      then obtain i ds where "first_occurrence text i ds" by blast
      from some [OF this] r show ?thesis by (simp split: if_splits)
    qed
  qed
  have short: "\<exists>n. extract_total_calories text = Inr n \<and> 0 \<le> n"
    if "first_occurrence text i ds \<and> length ds \<le> int_max_str_digits" for i ds
    using some [of i ds] that by simp
  have long: "extract_total_calories text = Inl ValueError"
    if "first_occurrence text i ds \<and> int_max_str_digits < length ds" for i ds
    using some [of i ds] that by simp
  show ?thesis
    using none short long nonneg err occurrence_cases [of "text"]
    by (intro conjI allI impI) blast+
qed

text \<open>
  The hypotheses of the amended claim C8 at concrete texts: one with no occurrence, one
  whose first digit run is short, one whose first digit run has 4301 digits.
\<close>

theorem extract_nonnegative_or_too_long_witness:
  "(\<forall>i ds. \<not> occurs_at (ascii ''no mention here'') i ds) \<and>
   extract_total_calories (ascii ''no mention here'') = Inr 0 \<and>
   (\<exists>i. first_occurrence (ascii ''## '' @ label @ ascii '' 450'' @ [10]) i (ascii ''450'')) \<and>
   length (ascii ''450'') \<le> int_max_str_digits \<and>
   (\<exists>n. extract_total_calories (ascii ''## '' @ label @ ascii '' 450'' @ [10]) = Inr n \<and> 0 \<le> n) \<and>
   first_occurrence (label @ replicate 4301 0x30) 0 (replicate 4301 0x30) \<and>
   int_max_str_digits < length (replicate 4301 (0x30 :: nat)) \<and>
   extract_total_calories (label @ replicate 4301 0x30) = Inl ValueError"
proof -
  let ?t = "ascii ''## '' @ label @ ascii '' 450'' @ [10]"
  let ?z = "label @ replicate 4301 0x30"
  have none: "\<forall>i ds. \<not> occurs_at (ascii ''no mention here'') i ds"
    using re_search_ex2 re_search_none by blast
  from re_search_ex1 obtain i where i: "first_occurrence ?t i (ascii ''450'')"
    using re_search_first by blast
  have len: "length (ascii ''450'') \<le> int_max_str_digits"
    by (simp add: ascii_def int_max_str_digits_def)
  have long: "int_max_str_digits < length (replicate 4301 (0x30 :: nat))"
    by (simp add: int_max_str_digits_def)
  from extract_nonnegative_or_too_long [of "ascii ''no mention here''"] none
  have 1: "extract_total_calories (ascii ''no mention here'') = Inr 0"
    by blast
  from extract_nonnegative_or_too_long [of ?t] i len
  have 2: "\<exists>n. extract_total_calories ?t = Inr n \<and> 0 \<le> n"
    by blast
  from extract_nonnegative_or_too_long [of ?z] first_occurrence_zeros long
  have 3: "extract_total_calories ?z = Inl ValueError"
    by blast
  show ?thesis
    using none 1 i len 2 first_occurrence_zeros long 3 by blast
qed

section \<open>Properties of the calculator\<close>

lemma all_present_iff: "all_present user_data \<longleftrightarrow> \<not> missing_or_null user_data"
  by (simp add: all_present_def missing_or_null_def required_keys_def)

lemma complete_result:
  assumes "all_present user_data" and "calculate_profile_data user_data = Inr r"
  shows "\<exists>x b m p t.
           imc_of user_data = Inr x \<and> bmr_of user_data = Inr b \<and>
           multiplier_of user_data = Inr m \<and> py_mul b (PFloat m) = Inr p \<and>
           py_round p = Inr t \<and>
           r = \<lparr>imc = Some x, tdee = Some t, imc_recommendation = imc_recommendation_of x\<rparr>"
  using assms unfolding calculate_profile_data_def and_then_def
  by (auto split: sum.splits)

lemma complete_compose:
  assumes "all_present user_data" and "imc_of user_data = Inr x" and "bmr_of user_data = Inr b"
    and "multiplier_of user_data = Inr m" and "py_mul b (PFloat m) = Inr p"
    and "py_round p = Inr t"
  shows "calculate_profile_data user_data =
           Inr \<lparr>imc = Some x, tdee = Some t, imc_recommendation = imc_recommendation_of x\<rparr>"
  using assms by (simp add: calculate_profile_data_def and_then_def)

lemma incomplete_result:
  "\<not> all_present user_data \<Longrightarrow> calculate_profile_data user_data = Inr incomplete"
  by (simp add: calculate_profile_data_def)

lemma complete_not_incomplete:
  assumes "all_present user_data"
  shows "calculate_profile_data user_data \<noteq> Inr incomplete"
proof
  assume "calculate_profile_data user_data = Inr incomplete"
  from complete_result [OF assms this] obtain x t where
    "incomplete = \<lparr>imc = Some x, tdee = Some t, imc_recommendation = imc_recommendation_of x\<rparr>"
    by blast
  then show False by (simp add: incomplete_def)
qed

lemma lower_char_eq_iff:
  assumes "k \<noteq> 0x6B" and "\<not> (0x41 \<le> k \<and> k \<le> 0x5A)" and "k \<noteq> 0x212A"
  shows "lower_char c = k \<longleftrightarrow> c = k \<or> (0x61 \<le> k \<and> k \<le> 0x7A \<and> c + 32 = k)"
  using assms unfolding lower_char_def by auto

lemma lower_eq_iff:
  assumes "\<forall>k \<in> set key. k \<noteq> 0x6B \<and> \<not> (0x41 \<le> k \<and> k \<le> 0x5A) \<and> k \<noteq> 0x212A"
  shows "map lower_char s = key \<longleftrightarrow> same_ignoring_case s key"
  using assms
proof (induction s arbitrary: key)
  case Nil
  show ?case by (auto simp: same_ignoring_case_def)
next
  case (Cons c cs)
  show ?case
  proof (cases key)
    case Nil
    then show ?thesis by (simp add: same_ignoring_case_def)
  next
    case (Cons k ks)
    with Cons.prems have k: "k \<noteq> 0x6B" "\<not> (0x41 \<le> k \<and> k \<le> 0x5A)" "k \<noteq> 0x212A"
      and ks: "\<forall>k \<in> set ks. k \<noteq> 0x6B \<and> \<not> (0x41 \<le> k \<and> k \<le> 0x5A) \<and> k \<noteq> 0x212A"
      by simp_all
    have "map lower_char cs = ks \<longleftrightarrow> same_ignoring_case cs ks"
      using ks by (rule Cons.IH)
    then show ?thesis
      unfolding Cons using lower_char_eq_iff [OF k, of c]
      by (simp add: same_ignoring_case_def)
  qed
qed

lemma key_masculino: "map lower_char g = ascii ''masculino'' \<longleftrightarrow> same_ignoring_case g (ascii ''masculino'')"
  by (rule lower_eq_iff) (simp add: ascii_def)

lemma key_sedentario: "map lower_char a = ascii ''sedentario'' \<longleftrightarrow> same_ignoring_case a (ascii ''sedentario'')"
  by (rule lower_eq_iff) (simp add: ascii_def)

lemma key_ligero: "map lower_char a = ascii ''ligero'' \<longleftrightarrow> same_ignoring_case a (ascii ''ligero'')"
  by (rule lower_eq_iff) (simp add: ascii_def)

lemma key_moderado: "map lower_char a = ascii ''moderado'' \<longleftrightarrow> same_ignoring_case a (ascii ''moderado'')"
  by (rule lower_eq_iff) (simp add: ascii_def)

lemma key_activo: "map lower_char a = ascii ''activo'' \<longleftrightarrow> same_ignoring_case a (ascii ''activo'')"
  by (rule lower_eq_iff) (simp add: ascii_def)

lemma key_muy_activo: "map lower_char a = ascii ''muy activo'' \<longleftrightarrow> same_ignoring_case a (ascii ''muy activo'')"
  by (rule lower_eq_iff) (simp add: ascii_def)

lemma bmr_of_formula:
  assumes "user_data (ascii ''gender'') = Some (PStr g)"
    and "user_data (ascii ''weight'') = Some w"
    and "user_data (ascii ''height'') = Some h"
    and "user_data (ascii ''age'') = Some a"
  shows "bmr_of user_data =
     and_then (mifflin_st_jeor w h a) (\<lambda>base.
       if same_ignoring_case g (ascii ''masculino'') then py_add base (PInt 5)
       else py_sub base (PInt 161))"
  using assms
  by (simp add: bmr_of_def mifflin_st_jeor_def item_def and_then_def key_masculino
      split: sum.splits)

lemma multiplier_of_table:
  assumes "user_data (ascii ''activity_level'') = Some (PStr a)"
  shows "multiplier_of user_data =
     Inr (if same_ignoring_case a (ascii ''sedentario'') then float_literal 1.2
          else if same_ignoring_case a (ascii ''ligero'') then float_literal 1.375
          else if same_ignoring_case a (ascii ''moderado'') then float_literal 1.55
          else if same_ignoring_case a (ascii ''activo'') then float_literal 1.725
          else if same_ignoring_case a (ascii ''muy activo'') then float_literal 1.9
          else float_literal 1.2)"
proof -
  have "map_of activity_multipliers (map lower_char a) =
     (if same_ignoring_case a (ascii ''sedentario'') then Some (float_literal 1.2)
      else if same_ignoring_case a (ascii ''ligero'') then Some (float_literal 1.375)
      else if same_ignoring_case a (ascii ''moderado'') then Some (float_literal 1.55)
      else if same_ignoring_case a (ascii ''activo'') then Some (float_literal 1.725)
      else if same_ignoring_case a (ascii ''muy activo'') then Some (float_literal 1.9)
      else None)"
    unfolding activity_multipliers_def
    by (simp add: key_sedentario [symmetric] key_ligero [symmetric] key_moderado [symmetric]
        key_activo [symmetric] key_muy_activo [symmetric] eq_commute [of "ascii _" "map lower_char a"])
  then show ?thesis
    using assms by (simp add: multiplier_of_def item_def and_then_def)
qed

lemma round_half_even_nearest: "\<bar>real_of_int (round_half_even x) - x\<bar> \<le> 1 / 2"
  unfolding round_half_even_def Let_def
  by (auto simp: abs_le_iff)

subsection \<open>Evaluation of the float arithmetic\<close>

lemmas float_eval = rnd64_def floor_log2_def round_half_even_def compute_bitlen Let_def
  power_int_minus_divide

lemma rnd64_100: "rnd64 100 = Finite 100" by (simp add: float_eval)
lemma rnd64_10: "rnd64 10 = Finite 10" by (simp add: float_eval)
lemma rnd64_5: "rnd64 5 = Finite 5" by (simp add: float_eval)
lemma rnd64_161: "rnd64 161 = Finite 161" by (simp add: float_eval)
lemma rnd64_150: "rnd64 150 = Finite 150" by (simp add: float_eval)
lemma lit_6_25: "rnd64 (25 / 4) = Finite (25 / 4)" by (simp add: float_eval)
lemma lit_18_5: "rnd64 (37 / 2) = Finite (37 / 2)" by (simp add: float_eval)
lemma lit_1_2: "rnd64 (6 / 5) = Finite (5404319552844595/4503599627370496)"
  by (simp add: float_eval)
lemma lit_1_55: "rnd64 (31 / 20) = Finite (6980579422424269/4503599627370496)"
  by (simp add: float_eval)
lemma lit_22_86: "rnd64 (1143 / 50) = Finite (1608629491901399/70368744177664)"
  by (simp add: float_eval)

lemma int_to_float_10: "int_to_float 10 = Inr (Finite 10)"
  by (simp add: int_to_float_def rnd64_10)
lemma int_to_float_5: "int_to_float 5 = Inr (Finite 5)"
  by (simp add: int_to_float_def rnd64_5)
lemma int_to_float_100: "int_to_float 100 = Inr (Finite 100)"
  by (simp add: int_to_float_def rnd64_100)
lemma int_to_float_161: "int_to_float 161 = Inr (Finite 161)"
  by (simp add: int_to_float_def rnd64_161)
lemma int_to_float_150: "int_to_float 150 = Inr (Finite 150)"
  by (simp add: int_to_float_def rnd64_150)

lemma male_present: "all_present male_profile"
  by (simp add: all_present_def male_profile_def ascii_def)

lemma male_imc: "imc_of male_profile = Inr (float_literal 22.86)"
  by (simp add: imc_of_def male_profile_def ascii_def item_def and_then_def int_to_float_100
      float_literal_def float_eval)

lemma male_bmr: "bmr_of male_profile = Inr (PFloat (Finite 1648.75))"
  by (simp add: bmr_of_def male_profile_def ascii_def item_def and_then_def lower_char_def
      int_to_float_10 int_to_float_5 int_to_float_150 float_literal_def lit_6_25 fsub_def float_eval)

lemma male_multiplier: "multiplier_of male_profile = Inr (float_literal 1.55)"
  by (simp add: multiplier_of_def male_profile_def ascii_def item_def and_then_def lower_char_def
      activity_multipliers_def)

lemma male_tdee: "py_mul (PFloat (Finite 1648.75)) (PFloat (float_literal 1.55)) = Inr (PFloat (Finite (40889/16)))"
  by (simp add: float_literal_def lit_1_55 float_eval)

lemma round_tdee: "py_round (PFloat (Finite (40889/16))) = Inr 2556"
  by (simp add: round_half_even_def Let_def)

lemma male_rec: "imc_recommendation_of (float_literal 22.86) = ascii ''Peso saludable''"
  by (simp add: imc_recommendation_of_def float_literal_def lit_22_86 lit_18_5)

lemmas profile_eval = ascii_def item_def and_then_def lower_char_def float_literal_def

lemma female_present: "all_present female_profile"
  by (simp add: all_present_def female_profile_def ascii_def)

lemma female_imc: "imc_of female_profile = Inr (float_literal 22.86)"
  by (simp add: imc_of_def female_profile_def profile_eval int_to_float_100 float_eval)

lemma female_bmr: "bmr_of female_profile = Inr (PFloat (Finite 1482.75))"
  by (simp add: bmr_of_def female_profile_def profile_eval
      int_to_float_10 int_to_float_161 int_to_float_150 lit_6_25 fsub_def float_eval)

lemma female_multiplier: "multiplier_of female_profile = Inr (float_literal 1.2)"
  by (simp add: multiplier_of_def female_profile_def profile_eval activity_multipliers_def)

lemma female_product:
  "py_mul (PFloat (Finite 1482.75)) (PFloat (float_literal 1.2)) =
     Inr (PFloat (Finite (7825444157207347/4398046511104)))"
  by (simp add: float_literal_def lit_1_2 float_eval)

lemma female_round: "py_round (PFloat (Finite (7825444157207347/4398046511104))) = Inr 1779"
  by (simp add: round_half_even_def Let_def)

lemma zero_height_present: "all_present zero_height_profile"
  by (simp add: all_present_def zero_height_profile_def male_profile_def ascii_def)

lemma zero_height_imc: "imc_of zero_height_profile = Inl ZeroDivisionError"
  by (simp add: imc_of_def zero_height_profile_def male_profile_def profile_eval
      int_to_float_100 rnd64_def)

lemma negative_present: "all_present negative_profile"
  by (simp add: all_present_def negative_profile_def male_profile_def ascii_def)

lemma negative_imc: "imc_of negative_profile = Inr (float_literal (- 22.86))"
  by (simp add: imc_of_def negative_profile_def male_profile_def profile_eval
      int_to_float_100 float_eval)

lemma rnd64_neg_150: "rnd64 (- 150) = Finite (- 150)" by (simp add: float_eval)

lemma int_to_float_neg_150: "int_to_float (- 150) = Inr (Finite (- 150))"
  by (simp add: int_to_float_def rnd64_neg_150)

lemma negative_bmr: "bmr_of negative_profile = Inr (PFloat (Finite 548.75))"
  by (simp add: bmr_of_def negative_profile_def male_profile_def profile_eval
      int_to_float_10 int_to_float_5 int_to_float_neg_150 lit_6_25 fsub_def float_eval)

lemma negative_multiplier: "multiplier_of negative_profile = Inr (float_literal 1.55)"
  by (simp add: multiplier_of_def negative_profile_def male_profile_def profile_eval
      activity_multipliers_def)

lemma negative_product:
  "py_mul (PFloat (Finite 548.75)) (PFloat (float_literal 1.55)) = Inr (PFloat (Finite (13609/16)))"
  by (simp add: float_literal_def lit_1_55 float_eval)

lemma negative_round: "py_round (PFloat (Finite (13609/16))) = Inr 851"
  by (simp add: round_half_even_def Let_def)

lemma negative_rec: "imc_recommendation_of (float_literal (- 22.86)) = ascii ''Bajo peso''"
  by (simp add: imc_recommendation_of_def float_literal_def lit_18_5 float_eval)

lemma recommendation_Finite:
  "imc_recommendation_of (Finite v) =
     (if v < 18.5 then ascii ''Bajo peso''
      else if v < 25 then ascii ''Peso saludable''
      else if v < 30 then ascii ''Sobrepeso''
      else ascii ''Obesidad'')"
  by (simp add: imc_recommendation_of_def float_literal_def lit_18_5)

lemma lit_18_49: "rnd64 (1849 / 100) = Finite (5204472319380029/281474976710656)"
  by (simp add: float_eval)

lemma lit_24_99: "rnd64 (2499 / 100) = Finite (7034059667999293/281474976710656)"
  by (simp add: float_eval)

lemma lit_29_99: "rnd64 (2999 / 100) = Finite (8441434551552573/281474976710656)"
  by (simp add: float_eval)

lemma rnd64_25: "rnd64 25 = Finite 25" by (simp add: float_eval)

lemma rnd64_30: "rnd64 30 = Finite 30" by (simp add: float_eval)

lemma rec_18_49: "imc_recommendation_of (float_literal 18.49) = ascii ''Bajo peso''"
  by (simp add: float_literal_def lit_18_49 recommendation_Finite)

lemma rec_18_5: "imc_recommendation_of (float_literal 18.5) = ascii ''Peso saludable''"
  by (simp add: float_literal_def lit_18_5 recommendation_Finite)

lemma rec_24_99: "imc_recommendation_of (float_literal 24.99) = ascii ''Peso saludable''"
  by (simp add: float_literal_def lit_24_99 recommendation_Finite)

lemma rec_25: "imc_recommendation_of (float_literal 25.0) = ascii ''Sobrepeso''"
  by (simp add: float_literal_def rnd64_25 recommendation_Finite)

lemma rec_29_99: "imc_recommendation_of (float_literal 29.99) = ascii ''Sobrepeso''"
  by (simp add: float_literal_def lit_29_99 recommendation_Finite)

lemma rec_30: "imc_recommendation_of (float_literal 30.0) = ascii ''Obesidad''"
  by (simp add: float_literal_def rnd64_30 recommendation_Finite)

lemma bmi_present: "all_present (bmi_profile w)"
  by (simp add: all_present_def bmi_profile_def ascii_def)

lemma bmi_multiplier: "multiplier_of (bmi_profile w) = Inr (float_literal 1.2)"
  by (simp add: multiplier_of_def bmi_profile_def ascii_def item_def and_then_def lower_char_def
      activity_multipliers_def)

lemma bmi_imc_18_49: "imc_of (bmi_profile 18.49) = Inr (float_literal 18.49)"
  by (simp add: imc_of_def bmi_profile_def profile_eval int_to_float_100 lit_18_49 float_eval)

lemma bmi_imc_18_5: "imc_of (bmi_profile 18.5) = Inr (float_literal 18.5)"
  by (simp add: imc_of_def bmi_profile_def profile_eval int_to_float_100 lit_18_5 float_eval)

lemma bmi_imc_24_99: "imc_of (bmi_profile 24.99) = Inr (float_literal 24.99)"
  by (simp add: imc_of_def bmi_profile_def profile_eval int_to_float_100 lit_24_99 float_eval)

lemma bmi_imc_25: "imc_of (bmi_profile 25.0) = Inr (float_literal 25.0)"
  by (simp add: imc_of_def bmi_profile_def profile_eval int_to_float_100 rnd64_25 float_eval)

lemma bmi_imc_29_99: "imc_of (bmi_profile 29.99) = Inr (float_literal 29.99)"
  by (simp add: imc_of_def bmi_profile_def profile_eval int_to_float_100 lit_29_99 float_eval)

lemma bmi_imc_30: "imc_of (bmi_profile 30.0) = Inr (float_literal 30.0)"
  by (simp add: imc_of_def bmi_profile_def profile_eval int_to_float_100 rnd64_30 float_eval)

lemma bmi_bmr_18_49: "bmr_of (bmi_profile 18.49) = Inr (PFloat (Finite (4388370808779571/8796093022208)))"
  by (simp add: bmr_of_def bmi_profile_def profile_eval lit_18_49
      int_to_float_10 int_to_float_161 int_to_float_150 lit_6_25 fsub_def float_eval)

lemma bmi_product_18_49:
  "py_mul (PFloat (Finite (4388370808779571/8796093022208))) (PFloat (float_literal 1.2)) =
     Inr (PFloat (Finite (5266044970535485/8796093022208)))"
  by (simp add: float_literal_def lit_1_2 float_eval)

lemma bmi_round_18_49: "py_round (PFloat (Finite (5266044970535485/8796093022208))) = Inr 599"
  by (simp add: round_half_even_def Let_def)

lemma bmi_metrics_18_49:
  "calculate_profile_data (bmi_profile 18.49) =
     Inr \<lparr>imc = Some (float_literal 18.49), tdee = Some 599,
          imc_recommendation = ascii ''Bajo peso''\<rparr>"
  by (simp only: complete_compose [OF bmi_present bmi_imc_18_49 bmi_bmr_18_49 bmi_multiplier
      bmi_product_18_49 bmi_round_18_49] rec_18_49)

lemma bmi_bmr_18_5: "bmr_of (bmi_profile 18.5) = Inr (PFloat (Finite (499)))"
  by (simp add: bmr_of_def bmi_profile_def profile_eval lit_18_5
      int_to_float_10 int_to_float_161 int_to_float_150 lit_6_25 fsub_def float_eval)

lemma bmi_product_18_5:
  "py_mul (PFloat (Finite (499))) (PFloat (float_literal 1.2)) =
     Inr (PFloat (Finite (2633550250849075/4398046511104)))"
  by (simp add: float_literal_def lit_1_2 float_eval)

lemma bmi_round_18_5: "py_round (PFloat (Finite (2633550250849075/4398046511104))) = Inr 599"
  by (simp add: round_half_even_def Let_def)

lemma bmi_metrics_18_5:
  "calculate_profile_data (bmi_profile 18.5) =
     Inr \<lparr>imc = Some (float_literal 18.5), tdee = Some 599,
          imc_recommendation = ascii ''Peso saludable''\<rparr>"
  by (simp only: complete_compose [OF bmi_present bmi_imc_18_5 bmi_bmr_18_5 bmi_multiplier
      bmi_product_18_5 bmi_round_18_5] rec_18_5)

lemma bmi_bmr_24_99: "bmr_of (bmi_profile 24.99) = Inr (PFloat (Finite (4960116855223091/8796093022208)))"
  by (simp add: bmr_of_def bmi_profile_def profile_eval lit_24_99
      int_to_float_10 int_to_float_161 int_to_float_150 lit_6_25 fsub_def float_eval)

lemma bmi_product_24_99:
  "py_mul (PFloat (Finite (4960116855223091/8796093022208))) (PFloat (float_literal 1.2)) =
     Inr (PFloat (Finite (5952140226267709/8796093022208)))"
  by (simp add: float_literal_def lit_1_2 float_eval)

lemma bmi_round_24_99: "py_round (PFloat (Finite (5952140226267709/8796093022208))) = Inr 677"
  by (simp add: round_half_even_def Let_def)

lemma bmi_metrics_24_99:
  "calculate_profile_data (bmi_profile 24.99) =
     Inr \<lparr>imc = Some (float_literal 24.99), tdee = Some 677,
          imc_recommendation = ascii ''Peso saludable''\<rparr>"
  by (simp only: complete_compose [OF bmi_present bmi_imc_24_99 bmi_bmr_24_99 bmi_multiplier
      bmi_product_24_99 bmi_round_24_99] rec_24_99)

lemma bmi_bmr_25: "bmr_of (bmi_profile 25.0) = Inr (PFloat (Finite (564)))"
  by (simp add: bmr_of_def bmi_profile_def profile_eval rnd64_25
      int_to_float_10 int_to_float_161 int_to_float_150 lit_6_25 fsub_def float_eval)

lemma bmi_product_25:
  "py_mul (PFloat (Finite (564))) (PFloat (float_literal 1.2)) =
     Inr (PFloat (Finite (2976597878715187/4398046511104)))"
  by (simp add: float_literal_def lit_1_2 float_eval)

lemma bmi_round_25: "py_round (PFloat (Finite (2976597878715187/4398046511104))) = Inr 677"
  by (simp add: round_half_even_def Let_def)

lemma bmi_metrics_25:
  "calculate_profile_data (bmi_profile 25.0) =
     Inr \<lparr>imc = Some (float_literal 25.0), tdee = Some 677,
          imc_recommendation = ascii ''Sobrepeso''\<rparr>"
  by (simp only: complete_compose [OF bmi_present bmi_imc_25 bmi_bmr_25 bmi_multiplier
      bmi_product_25 bmi_round_25] rec_25)

lemma bmi_bmr_29_99: "bmr_of (bmi_profile 29.99) = Inr (PFloat (Finite (5399921506333491/8796093022208)))"
  by (simp add: bmr_of_def bmi_profile_def profile_eval lit_29_99
      int_to_float_10 int_to_float_161 int_to_float_150 lit_6_25 fsub_def float_eval)

lemma bmi_product_29_99:
  "py_mul (PFloat (Finite (5399921506333491/8796093022208))) (PFloat (float_literal 1.2)) =
     Inr (PFloat (Finite (6479905807600189/8796093022208)))"
  by (simp add: float_literal_def lit_1_2 float_eval)

lemma bmi_round_29_99: "py_round (PFloat (Finite (6479905807600189/8796093022208))) = Inr 737"
  by (simp add: round_half_even_def Let_def)

lemma bmi_metrics_29_99:
  "calculate_profile_data (bmi_profile 29.99) =
     Inr \<lparr>imc = Some (float_literal 29.99), tdee = Some 737,
          imc_recommendation = ascii ''Sobrepeso''\<rparr>"
  by (simp only: complete_compose [OF bmi_present bmi_imc_29_99 bmi_bmr_29_99 bmi_multiplier
      bmi_product_29_99 bmi_round_29_99] rec_29_99)

lemma bmi_bmr_30: "bmr_of (bmi_profile 30.0) = Inr (PFloat (Finite (614)))"
  by (simp add: bmr_of_def bmi_profile_def profile_eval rnd64_30
      int_to_float_10 int_to_float_161 int_to_float_150 lit_6_25 fsub_def float_eval)

lemma bmi_product_30:
  "py_mul (PFloat (Finite (614))) (PFloat (float_literal 1.2)) =
     Inr (PFloat (Finite (3240480669381427/4398046511104)))"
  by (simp add: float_literal_def lit_1_2 float_eval)

lemma bmi_round_30: "py_round (PFloat (Finite (3240480669381427/4398046511104))) = Inr 737"
  by (simp add: round_half_even_def Let_def)

lemma bmi_metrics_30:
  "calculate_profile_data (bmi_profile 30.0) =
     Inr \<lparr>imc = Some (float_literal 30.0), tdee = Some 737,
          imc_recommendation = ascii ''Obesidad''\<rparr>"
  by (simp only: complete_compose [OF bmi_present bmi_imc_30 bmi_bmr_30 bmi_multiplier
      bmi_product_30 bmi_round_30] rec_30)

lemma mifflin_floats:
  "mifflin_st_jeor (PFloat x) (PFloat y) (PInt n) =
     and_then (int_to_float (5 * n)) (\<lambda>d.
       Inr (PFloat (fsub (fadd (fmul (Finite 10) x) (fmul (Finite 6.25) y)) d)))"
  by (simp add: mifflin_st_jeor_def and_then_def int_to_float_10 float_literal_def lit_6_25
      split: sum.splits)

lemma zero_height_division:
  assumes "user_data (ascii ''height'') = Some (PFloat (Finite 0)) \<or>
           user_data (ascii ''height'') = Some (PInt 0)"
    and "user_data (ascii ''weight'') = Some (PFloat w)"
  shows "imc_of user_data = Inl ZeroDivisionError"
  using assms
  by (auto simp: imc_of_def item_def and_then_def int_to_float_100 rnd64_def)

section \<open>Claims about the calculator\<close>

text \<open>
  Claim C1. The calculator returns the Incomplete sentinel (no \<open>imc\<close>, no \<open>tdee\<close>, the
  message \<open>Completa tu perfil\<close>) if and only if at least one of the five physical
  attributes is missing or null. A profile with all five present never gives the
  sentinel: whatever it returns holds an \<open>imc\<close> and a \<open>tdee\<close>.
\<close>

theorem incomplete_iff_missing_or_null:
  "(calculate_profile_data user_data = Inr incomplete \<longleftrightarrow> missing_or_null user_data) \<and>
   (\<not> missing_or_null user_data \<longrightarrow>
      (\<forall>r. calculate_profile_data user_data = Inr r \<longrightarrow> imc r \<noteq> None \<and> tdee r \<noteq> None)) \<and>
   imc incomplete = None \<and> tdee incomplete = None \<and>
   imc_recommendation incomplete = ascii ''Completa tu perfil''"
proof (intro conjI impI allI)
  show "calculate_profile_data user_data = Inr incomplete \<longleftrightarrow> missing_or_null user_data"
    using incomplete_result [of user_data] complete_not_incomplete [of user_data]
    by (auto simp: all_present_iff)
next
  fix r
  assume "\<not> missing_or_null user_data" and "calculate_profile_data user_data = Inr r"
  then obtain x t where
    "r = \<lparr>imc = Some x, tdee = Some t, imc_recommendation = imc_recommendation_of x\<rparr>"
    using complete_result [of user_data r] by (auto simp: all_present_iff)
  then show "imc r \<noteq> None" and "tdee r \<noteq> None" by simp_all
qed (simp_all add: incomplete_def)

text \<open>
  The claim C1 at concrete profiles: the empty profile and a profile whose age is null
  give the sentinel, the complete profile of the first scenario does not.
\<close>

theorem incomplete_iff_missing_or_null_witness:
  "missing_or_null Map.empty \<and> calculate_profile_data Map.empty = Inr incomplete \<and>
   missing_or_null (male_profile(ascii ''age'' \<mapsto> PNone)) \<and>
   calculate_profile_data (male_profile(ascii ''age'' \<mapsto> PNone)) = Inr incomplete \<and>
   \<not> missing_or_null male_profile \<and>
   calculate_profile_data male_profile \<noteq> Inr incomplete \<and>
   (\<exists>r. calculate_profile_data male_profile = Inr r \<and> imc r \<noteq> None \<and> tdee r \<noteq> None)"
proof -
  have 1: "missing_or_null Map.empty"
    by (auto simp: missing_or_null_def required_keys_def)
  have 2: "missing_or_null (male_profile(ascii ''age'' \<mapsto> PNone))"
    by (simp add: missing_or_null_def required_keys_def)
  have 3: "\<not> missing_or_null male_profile"
    using male_present by (simp add: all_present_iff)
  have 4: "calculate_profile_data male_profile =
     Inr \<lparr>imc = Some (float_literal 22.86), tdee = Some 2556,
          imc_recommendation = ascii ''Peso saludable''\<rparr>"
    by (simp only: complete_compose [OF male_present male_imc male_bmr male_multiplier
        male_tdee round_tdee] male_rec)
  from incomplete_iff_missing_or_null [of Map.empty] 1
  have 5: "calculate_profile_data Map.empty = Inr incomplete" by blast
  from incomplete_iff_missing_or_null [of "male_profile(ascii ''age'' \<mapsto> PNone)"] 2
  have 6: "calculate_profile_data (male_profile(ascii ''age'' \<mapsto> PNone)) = Inr incomplete"
    by blast
  from incomplete_iff_missing_or_null [of male_profile] 3
  have 7: "calculate_profile_data male_profile \<noteq> Inr incomplete"
    and 8: "\<forall>r. calculate_profile_data male_profile = Inr r \<longrightarrow> imc r \<noteq> None \<and> tdee r \<noteq> None"
    by blast+
  from 8 4 have 9: "\<exists>r. calculate_profile_data male_profile = Inr r \<and> imc r \<noteq> None \<and> tdee r \<noteq> None"
    by blast
  from 1 5 2 6 3 7 9 show ?thesis by blast
qed

text \<open>
  Claim C3. For a complete profile (its gender a string) the basal metabolic rate
  follows the Mifflin-St Jeor formula, with a branch on the gender: when the gender is
  the word \<open>masculino\<close> in any case, it is \<open>10 * weight + 6.25 * height - 5 * age + 5\<close>; for every other gender,
  known or not, it is \<open>10 * weight + 6.25 * height - 5 * age - 161\<close>. For a float
  weight and height and an \<open>int\<close> age the formula is spelt out in float arithmetic.
\<close>

theorem bmr_mifflin_st_jeor:
  assumes "user_data (ascii ''gender'') = Some (PStr g)"
    and "user_data (ascii ''weight'') = Some w"
    and "user_data (ascii ''height'') = Some h"
    and "user_data (ascii ''age'') = Some a"
  shows "bmr_of user_data =
           and_then (mifflin_st_jeor w h a) (\<lambda>base.
             if same_ignoring_case g (ascii ''masculino'') then py_add base (PInt 5)
             else py_sub base (PInt 161)) \<and>
         (\<forall>x y n. w = PFloat x \<and> h = PFloat y \<and> a = PInt n \<longrightarrow>
            bmr_of user_data =
              and_then (int_to_float (5 * n)) (\<lambda>d.
                Inr (PFloat
                  (if same_ignoring_case g (ascii ''masculino'')
                   then fadd (fsub (fadd (fmul (Finite 10) x) (fmul (Finite 6.25) y)) d) (Finite 5)
                   else fsub (fsub (fadd (fmul (Finite 10) x) (fmul (Finite 6.25) y)) d)
                          (Finite 161)))))"
proof -
  have general: "bmr_of user_data =
           and_then (mifflin_st_jeor w h a) (\<lambda>base.
             if same_ignoring_case g (ascii ''masculino'') then py_add base (PInt 5)
             else py_sub base (PInt 161))"
    using assms by (rule bmr_of_formula)
  have floats: "bmr_of user_data =
              and_then (int_to_float (5 * n)) (\<lambda>d.
                Inr (PFloat
                  (if same_ignoring_case g (ascii ''masculino'')
                   then fadd (fsub (fadd (fmul (Finite 10) x) (fmul (Finite 6.25) y)) d) (Finite 5)
                   else fsub (fsub (fadd (fmul (Finite 10) x) (fmul (Finite 6.25) y)) d)
                          (Finite 161))))"
    if "w = PFloat x \<and> h = PFloat y \<and> a = PInt n" for x y n
    unfolding general using that
    by (simp add: mifflin_floats and_then_def int_to_float_5 int_to_float_161 split: sum.splits)
  from general floats show ?thesis by blast
qed

text \<open>
  The claim C3 at the two scenarios: \<open>Masculino\<close> is \<open>masculino\<close> in another case and
  takes the first formula, \<open>Femenino\<close> is not and takes the second.
\<close>

theorem bmr_mifflin_st_jeor_witness:
  "male_profile (ascii ''gender'') = Some (PStr (ascii ''Masculino'')) \<and>
   male_profile (ascii ''weight'') = Some (PFloat (Finite 70)) \<and>
   male_profile (ascii ''height'') = Some (PFloat (Finite 175)) \<and>
   male_profile (ascii ''age'') = Some (PInt 30) \<and>
   same_ignoring_case (ascii ''Masculino'') (ascii ''masculino'') \<and>
   bmr_of male_profile =
     and_then (int_to_float (5 * 30)) (\<lambda>d.
       Inr (PFloat (fadd (fsub (fadd (fmul (Finite 10) (Finite 70))
                                  (fmul (Finite 6.25) (Finite 175))) d) (Finite 5)))) \<and>
   female_profile (ascii ''gender'') = Some (PStr (ascii ''Femenino'')) \<and>
   \<not> same_ignoring_case (ascii ''Femenino'') (ascii ''masculino'') \<and>
   bmr_of female_profile =
     and_then (int_to_float (5 * 30)) (\<lambda>d.
       Inr (PFloat (fsub (fsub (fadd (fmul (Finite 10) (Finite 70))
                                  (fmul (Finite 6.25) (Finite 175))) d) (Finite 161))))"
proof -
  have m: "male_profile (ascii ''gender'') = Some (PStr (ascii ''Masculino''))"
    "male_profile (ascii ''weight'') = Some (PFloat (Finite 70))"
    "male_profile (ascii ''height'') = Some (PFloat (Finite 175))"
    "male_profile (ascii ''age'') = Some (PInt 30)"
    by (simp_all add: male_profile_def ascii_def)
  have f: "female_profile (ascii ''gender'') = Some (PStr (ascii ''Femenino''))"
    "female_profile (ascii ''weight'') = Some (PFloat (Finite 70))"
    "female_profile (ascii ''height'') = Some (PFloat (Finite 175))"
    "female_profile (ascii ''age'') = Some (PInt 30)"
    by (simp_all add: female_profile_def ascii_def)
  have sm: "same_ignoring_case (ascii ''Masculino'') (ascii ''masculino'')"
    by (simp add: same_ignoring_case_def ascii_def)
  have sf: "\<not> same_ignoring_case (ascii ''Femenino'') (ascii ''masculino'')"
    by (simp add: same_ignoring_case_def ascii_def)
  from bmr_mifflin_st_jeor [OF m]
  have "\<forall>x y n. PFloat (Finite 70) = PFloat x \<and> PFloat (Finite 175) = PFloat y \<and>
          PInt 30 = PInt n \<longrightarrow>
     bmr_of male_profile =
     and_then (int_to_float (5 * n)) (\<lambda>d.
       Inr (PFloat
         (if same_ignoring_case (ascii ''Masculino'') (ascii ''masculino'')
          then fadd (fsub (fadd (fmul (Finite 10) x) (fmul (Finite 6.25) y)) d) (Finite 5)
          else fsub (fsub (fadd (fmul (Finite 10) x) (fmul (Finite 6.25) y)) d)
                 (Finite 161))))"
    by (rule conjunct2)
  then have "bmr_of male_profile =
     and_then (int_to_float (5 * 30)) (\<lambda>d.
       Inr (PFloat
         (if same_ignoring_case (ascii ''Masculino'') (ascii ''masculino'')
          then fadd (fsub (fadd (fmul (Finite 10) (Finite 70))
                 (fmul (Finite 6.25) (Finite 175))) d) (Finite 5)
          else fsub (fsub (fadd (fmul (Finite 10) (Finite 70))
                 (fmul (Finite 6.25) (Finite 175))) d) (Finite 161))))"
    by blast
  then have 1: "bmr_of male_profile =
     and_then (int_to_float (5 * 30)) (\<lambda>d.
       Inr (PFloat (fadd (fsub (fadd (fmul (Finite 10) (Finite 70))
                                  (fmul (Finite 6.25) (Finite 175))) d) (Finite 5))))"
    by (simp only: sm if_True)
  from bmr_mifflin_st_jeor [OF f]
  have "\<forall>x y n. PFloat (Finite 70) = PFloat x \<and> PFloat (Finite 175) = PFloat y \<and>
          PInt 30 = PInt n \<longrightarrow>
     bmr_of female_profile =
     and_then (int_to_float (5 * n)) (\<lambda>d.
       Inr (PFloat
         (if same_ignoring_case (ascii ''Femenino'') (ascii ''masculino'')
          then fadd (fsub (fadd (fmul (Finite 10) x) (fmul (Finite 6.25) y)) d) (Finite 5)
          else fsub (fsub (fadd (fmul (Finite 10) x) (fmul (Finite 6.25) y)) d)
                 (Finite 161))))"
    by (rule conjunct2)
  then have "bmr_of female_profile =
     and_then (int_to_float (5 * 30)) (\<lambda>d.
       Inr (PFloat
         (if same_ignoring_case (ascii ''Femenino'') (ascii ''masculino'')
          then fadd (fsub (fadd (fmul (Finite 10) (Finite 70))
                 (fmul (Finite 6.25) (Finite 175))) d) (Finite 5)
          else fsub (fsub (fadd (fmul (Finite 10) (Finite 70))
                 (fmul (Finite 6.25) (Finite 175))) d) (Finite 161))))"
    by blast
  then have 2: "bmr_of female_profile =
     and_then (int_to_float (5 * 30)) (\<lambda>d.
       Inr (PFloat (fsub (fsub (fadd (fmul (Finite 10) (Finite 70))
                                  (fmul (Finite 6.25) (Finite 175))) d) (Finite 161))))"
    by (simp only: sf if_False)
  from m sm 1 f(1) sf 2 show ?thesis by blast
qed

text \<open>
  Claim C4. For a complete profile (its activity level a string) the activity
  multiplier is looked up in the fixed table, whatever the case of the letters of the
  activity level: \<open>sedentario\<close> 1.2,
  \<open>ligero\<close> 1.375, \<open>moderado\<close> 1.55, \<open>activo\<close> 1.725, \<open>muy activo\<close> 1.9; an activity
  level that is not in the table gives 1.2 and no error (as \<open>flying\<close> does). The
  \<open>tdee\<close> returned is \<open>round(bmr * multiplier)\<close>, an integer nearest to the product.
\<close>

theorem activity_multiplier_and_tdee:
  "(\<forall>a. user_data (ascii ''activity_level'') = Some (PStr a) \<longrightarrow>
      multiplier_of user_data =
        Inr (if same_ignoring_case a (ascii ''sedentario'') then float_literal 1.2
             else if same_ignoring_case a (ascii ''ligero'') then float_literal 1.375
             else if same_ignoring_case a (ascii ''moderado'') then float_literal 1.55
             else if same_ignoring_case a (ascii ''activo'') then float_literal 1.725
             else if same_ignoring_case a (ascii ''muy activo'') then float_literal 1.9
             else float_literal 1.2)) \<and>
   (\<forall>r. \<not> missing_or_null user_data \<and> calculate_profile_data user_data = Inr r \<longrightarrow>
      (\<exists>b m p t. bmr_of user_data = Inr b \<and> multiplier_of user_data = Inr m \<and>
         py_mul b (PFloat m) = Inr p \<and> py_round p = Inr t \<and> tdee r = Some t)) \<and>
   (\<forall>x t. py_round (PFloat (Finite x)) = Inr t \<longrightarrow> \<bar>real_of_int t - x\<bar> \<le> 1 / 2) \<and>
   multiplier_of (bmi_profile w) = Inr (float_literal 1.2)"
proof (intro conjI allI impI)
  fix a
  assume "user_data (ascii ''activity_level'') = Some (PStr a)"
  then show "multiplier_of user_data =
        Inr (if same_ignoring_case a (ascii ''sedentario'') then float_literal 1.2
             else if same_ignoring_case a (ascii ''ligero'') then float_literal 1.375
             else if same_ignoring_case a (ascii ''moderado'') then float_literal 1.55
             else if same_ignoring_case a (ascii ''activo'') then float_literal 1.725
             else if same_ignoring_case a (ascii ''muy activo'') then float_literal 1.9
             else float_literal 1.2)"
    by (rule multiplier_of_table)
next
  fix r
  assume "\<not> missing_or_null user_data \<and> calculate_profile_data user_data = Inr r"
  then have "all_present user_data" and "calculate_profile_data user_data = Inr r"
    by (simp_all add: all_present_iff)
  from complete_result [OF this] obtain x b m p t where
    "bmr_of user_data = Inr b" "multiplier_of user_data = Inr m" "py_mul b (PFloat m) = Inr p"
    "py_round p = Inr t"
    "r = \<lparr>imc = Some x, tdee = Some t, imc_recommendation = imc_recommendation_of x\<rparr>"
    by blast
  then show "\<exists>b m p t. bmr_of user_data = Inr b \<and> multiplier_of user_data = Inr m \<and>
         py_mul b (PFloat m) = Inr p \<and> py_round p = Inr t \<and> tdee r = Some t"
    by auto
next
  fix x t
  assume "py_round (PFloat (Finite x)) = Inr t"
  then have "t = round_half_even x" by simp
  then show "\<bar>real_of_int t - x\<bar> \<le> 1 / 2"
    using round_half_even_nearest [of x] by simp
next
  show "multiplier_of (bmi_profile w) = Inr (float_literal 1.2)"
    by (rule bmi_multiplier)
qed

text \<open>
  The claim C4 at the first scenario: the activity level \<open>moderado\<close> gives the multiplier
  1.55, and the \<open>tdee\<close> returned is the rounding of the product, 2556.
\<close>

theorem activity_multiplier_and_tdee_witness:
  "male_profile (ascii ''activity_level'') = Some (PStr (ascii ''moderado'')) \<and>
   multiplier_of male_profile = Inr (float_literal 1.55) \<and>
   \<not> missing_or_null male_profile \<and>
   calculate_profile_data male_profile =
     Inr \<lparr>imc = Some (float_literal 22.86), tdee = Some 2556,
          imc_recommendation = ascii ''Peso saludable''\<rparr> \<and>
   (\<exists>b m p. bmr_of male_profile = Inr b \<and> multiplier_of male_profile = Inr m \<and>
      py_mul b (PFloat m) = Inr p \<and> py_round p = Inr 2556) \<and>
   py_round (PFloat (Finite (40889 / 16))) = Inr 2556 \<and>
   \<bar>real_of_int 2556 - 40889 / 16\<bar> \<le> 1 / 2"
proof -
  have act: "male_profile (ascii ''activity_level'') = Some (PStr (ascii ''moderado''))"
    by (simp add: male_profile_def ascii_def)
  have same: "\<not> same_ignoring_case (ascii ''moderado'') (ascii ''sedentario'')"
    "\<not> same_ignoring_case (ascii ''moderado'') (ascii ''ligero'')"
    "same_ignoring_case (ascii ''moderado'') (ascii ''moderado'')"
    by (simp_all add: same_ignoring_case_def ascii_def)
  have present: "\<not> missing_or_null male_profile"
    using male_present by (simp add: all_present_iff)
  have metrics: "calculate_profile_data male_profile =
     Inr \<lparr>imc = Some (float_literal 22.86), tdee = Some 2556,
          imc_recommendation = ascii ''Peso saludable''\<rparr>"
    by (simp only: complete_compose [OF male_present male_imc male_bmr male_multiplier
        male_tdee round_tdee] male_rec)
  note inst = activity_multiplier_and_tdee [of male_profile 0]
  from inst act have "multiplier_of male_profile =
        Inr (if same_ignoring_case (ascii ''moderado'') (ascii ''sedentario'') then float_literal 1.2
             else if same_ignoring_case (ascii ''moderado'') (ascii ''ligero'') then float_literal 1.375
             else if same_ignoring_case (ascii ''moderado'') (ascii ''moderado'') then float_literal 1.55
             else if same_ignoring_case (ascii ''moderado'') (ascii ''activo'') then float_literal 1.725
             else if same_ignoring_case (ascii ''moderado'') (ascii ''muy activo'') then float_literal 1.9
             else float_literal 1.2)"
    by blast
  then have 1: "multiplier_of male_profile = Inr (float_literal 1.55)"
    by (simp only: same if_True if_False)
  from inst present metrics
  have "\<exists>b m p t. bmr_of male_profile = Inr b \<and> multiplier_of male_profile = Inr m \<and>
         py_mul b (PFloat m) = Inr p \<and> py_round p = Inr t \<and>
         tdee \<lparr>imc = Some (float_literal 22.86), tdee = Some 2556,
          imc_recommendation = ascii ''Peso saludable''\<rparr> = Some t"
    by blast
  then have 2: "\<exists>b m p. bmr_of male_profile = Inr b \<and> multiplier_of male_profile = Inr m \<and>
      py_mul b (PFloat m) = Inr p \<and> py_round p = Inr 2556"
    by auto
  from inst round_tdee have 3: "\<bar>real_of_int 2556 - 40889 / 16\<bar> \<le> 1 / 2"
    by blast
  from act 1 present metrics 2 round_tdee 3 show ?thesis by blast
qed

text \<open>
  Claim C5. For a complete profile the category is decided by half-open intervals on the
  rounded body mass index that is returned: below 18.5 \<open>Bajo peso\<close> (underweight), from
  18.5 to below 25 \<open>Peso saludable\<close> (healthy weight), from 25 to below 30 \<open>Sobrepeso\<close>
  (overweight), from 30 on \<open>Obesidad\<close> (obesity). Profiles with the index 18.49, 18.5,
  24.99, 25.0, 29.99 and 30.0 get the categories of the claim.
\<close>

theorem imc_recommendation_intervals:
  "(\<forall>r. \<not> missing_or_null user_data \<and> calculate_profile_data user_data = Inr r \<longrightarrow>
      (\<exists>x. imc r = Some x \<and> imc_recommendation r = imc_recommendation_of x)) \<and>
   (\<forall>v. imc_recommendation_of (Finite v) =
      (if v < 18.5 then ascii ''Bajo peso''
       else if v < 25 then ascii ''Peso saludable''
       else if v < 30 then ascii ''Sobrepeso''
       else ascii ''Obesidad'')) \<and>
   calculate_profile_data (bmi_profile 18.49) =
     Inr \<lparr>imc = Some (float_literal 18.49), tdee = Some 599,
          imc_recommendation = ascii ''Bajo peso''\<rparr> \<and>
   calculate_profile_data (bmi_profile 18.5) =
     Inr \<lparr>imc = Some (float_literal 18.5), tdee = Some 599,
          imc_recommendation = ascii ''Peso saludable''\<rparr> \<and>
   calculate_profile_data (bmi_profile 24.99) =
     Inr \<lparr>imc = Some (float_literal 24.99), tdee = Some 677,
          imc_recommendation = ascii ''Peso saludable''\<rparr> \<and>
   calculate_profile_data (bmi_profile 25.0) =
     Inr \<lparr>imc = Some (float_literal 25.0), tdee = Some 677,
          imc_recommendation = ascii ''Sobrepeso''\<rparr> \<and>
   calculate_profile_data (bmi_profile 29.99) =
     Inr \<lparr>imc = Some (float_literal 29.99), tdee = Some 737,
          imc_recommendation = ascii ''Sobrepeso''\<rparr> \<and>
   calculate_profile_data (bmi_profile 30.0) =
     Inr \<lparr>imc = Some (float_literal 30.0), tdee = Some 737,
          imc_recommendation = ascii ''Obesidad''\<rparr>"
proof (intro conjI allI impI)
  fix r
  assume "\<not> missing_or_null user_data \<and> calculate_profile_data user_data = Inr r"
  then have "all_present user_data" and "calculate_profile_data user_data = Inr r"
    by (simp_all add: all_present_iff)
  from complete_result [OF this] obtain x t where
    "r = \<lparr>imc = Some x, tdee = Some t, imc_recommendation = imc_recommendation_of x\<rparr>"
    by blast
  then show "\<exists>x. imc r = Some x \<and> imc_recommendation r = imc_recommendation_of x"
    by simp
next
  fix v
  show "imc_recommendation_of (Finite v) =
      (if v < 18.5 then ascii ''Bajo peso''
       else if v < 25 then ascii ''Peso saludable''
       else if v < 30 then ascii ''Sobrepeso''
       else ascii ''Obesidad'')"
    by (rule recommendation_Finite)
qed (rule bmi_metrics_18_49 bmi_metrics_18_5 bmi_metrics_24_99 bmi_metrics_25
      bmi_metrics_29_99 bmi_metrics_30)+

text \<open>
  The claim C5 at the first scenario: the index returned is 22.86, a float between 18.5
  and 25, and the category is \<open>Peso saludable\<close>.
\<close>

theorem imc_recommendation_intervals_witness:
  "\<not> missing_or_null male_profile \<and>
   calculate_profile_data male_profile =
     Inr \<lparr>imc = Some (float_literal 22.86), tdee = Some 2556,
          imc_recommendation = ascii ''Peso saludable''\<rparr> \<and>
   (\<exists>x. imc \<lparr>imc = Some (float_literal 22.86), tdee = Some 2556,
             imc_recommendation = ascii ''Peso saludable''\<rparr> = Some x \<and>
        ascii ''Peso saludable'' = imc_recommendation_of x)"
proof -
  have present: "\<not> missing_or_null male_profile"
    using male_present by (simp add: all_present_iff)
  have metrics: "calculate_profile_data male_profile =
     Inr \<lparr>imc = Some (float_literal 22.86), tdee = Some 2556,
          imc_recommendation = ascii ''Peso saludable''\<rparr>"
    by (simp only: complete_compose [OF male_present male_imc male_bmr male_multiplier
        male_tdee round_tdee] male_rec)
  from imc_recommendation_intervals [of male_profile] present metrics
  have "\<exists>x. imc \<lparr>imc = Some (float_literal 22.86), tdee = Some 2556,
             imc_recommendation = ascii ''Peso saludable''\<rparr> = Some x \<and>
        imc_recommendation \<lparr>imc = Some (float_literal 22.86), tdee = Some 2556,
             imc_recommendation = ascii ''Peso saludable''\<rparr> = imc_recommendation_of x"
    by blast
  then have "\<exists>x. imc \<lparr>imc = Some (float_literal 22.86), tdee = Some 2556,
             imc_recommendation = ascii ''Peso saludable''\<rparr> = Some x \<and>
        ascii ''Peso saludable'' = imc_recommendation_of x"
    by (simp only: profile_data.select_convs)
  with present metrics show ?thesis by blast
qed

lemma male_product_value: "(40889 / 16 :: real) = 2555.5625"
  by simp

text \<open>
  Claim C6, as stated: for weight 70, height 175, age 30, gender \<open>Masculino\<close> and
  activity \<open>moderado\<close> the basal metabolic rate is 1683.75 and the \<open>tdee\<close> is 2610. The
  code computes neither: the profile does not return a \<open>tdee\<close> of 2610 and its basal
  metabolic rate is not 1683.75.
\<close>

theorem male_scenario_counterexample:
  "bmr_of male_profile \<noteq> Inr (PFloat (Finite 1683.75)) \<and>
   calculate_profile_data male_profile \<noteq>
     Inr \<lparr>imc = Some (float_literal 22.86), tdee = Some 2610,
          imc_recommendation = ascii ''Peso saludable''\<rparr>"
proof -
  have "calculate_profile_data male_profile =
     Inr \<lparr>imc = Some (float_literal 22.86), tdee = Some 2556,
          imc_recommendation = ascii ''Peso saludable''\<rparr>"
    by (simp only: complete_compose [OF male_present male_imc male_bmr male_multiplier
        male_tdee round_tdee] male_rec)
  then show ?thesis by (simp add: male_bmr)
qed

text \<open>
  Claim C6, amended: for that profile the calculator returns the body mass index 22.86
  and the category \<open>Peso saludable\<close>; the basal metabolic rate is
  \<open>10 * 70 + 6.25 * 175 - 5 * 30 + 5 = 1648.75\<close>, its product with 1.55 is the float
  2555.5625, and the \<open>tdee\<close> is 2556.
\<close>

theorem male_scenario_metrics:
  "bmr_of male_profile = Inr (PFloat (Finite 1648.75)) \<and>
   multiplier_of male_profile = Inr (float_literal 1.55) \<and>
   py_mul (PFloat (Finite 1648.75)) (PFloat (float_literal 1.55)) =
     Inr (PFloat (Finite 2555.5625)) \<and>
   calculate_profile_data male_profile =
     Inr \<lparr>imc = Some (float_literal 22.86), tdee = Some 2556,
          imc_recommendation = ascii ''Peso saludable''\<rparr>"
proof (intro conjI)
  show "bmr_of male_profile = Inr (PFloat (Finite 1648.75))"
    by (rule male_bmr)
  show "multiplier_of male_profile = Inr (float_literal 1.55)"
    by (rule male_multiplier)
  show "py_mul (PFloat (Finite 1648.75)) (PFloat (float_literal 1.55)) =
     Inr (PFloat (Finite 2555.5625))"
    by (simp only: male_tdee male_product_value)
  show "calculate_profile_data male_profile =
     Inr \<lparr>imc = Some (float_literal 22.86), tdee = Some 2556,
          imc_recommendation = ascii ''Peso saludable''\<rparr>"
    by (simp only: complete_compose [OF male_present male_imc male_bmr male_multiplier
        male_tdee round_tdee] male_rec)
qed

text \<open>
  Claim C7, as stated: for weight 70, height 175, age 30, gender \<open>Femenino\<close> and
  activity \<open>sedentario\<close> the basal metabolic rate is 1517.75 and the \<open>tdee\<close> is 1821.
  The code computes neither.
\<close>

theorem female_scenario_counterexample:
  "bmr_of female_profile \<noteq> Inr (PFloat (Finite 1517.75)) \<and>
   calculate_profile_data female_profile \<noteq>
     Inr \<lparr>imc = Some (float_literal 22.86), tdee = Some 1821,
          imc_recommendation = ascii ''Peso saludable''\<rparr>"
proof -
  have "calculate_profile_data female_profile =
     Inr \<lparr>imc = Some (float_literal 22.86), tdee = Some 1779,
          imc_recommendation = ascii ''Peso saludable''\<rparr>"
    by (simp only: complete_compose [OF female_present female_imc female_bmr
        female_multiplier female_product female_round] male_rec)
  then show ?thesis by (simp add: female_bmr)
qed

text \<open>
  Claim C7, amended: for that profile the basal metabolic rate is
  \<open>10 * 70 + 6.25 * 175 - 5 * 30 - 161 = 1482.75\<close>, the multiplier is 1.2, and the
  \<open>tdee\<close> returned is \<open>round(1482.75 * 1.2) = 1779\<close>.
\<close>

theorem female_scenario_metrics:
  "bmr_of female_profile = Inr (PFloat (Finite 1482.75)) \<and>
   multiplier_of female_profile = Inr (float_literal 1.2) \<and>
   (\<exists>p. py_mul (PFloat (Finite 1482.75)) (PFloat (float_literal 1.2)) = Inr p \<and>
        py_round p = Inr 1779) \<and>
   calculate_profile_data female_profile =
     Inr \<lparr>imc = Some (float_literal 22.86), tdee = Some 1779,
          imc_recommendation = ascii ''Peso saludable''\<rparr>"
proof (intro conjI)
  show "bmr_of female_profile = Inr (PFloat (Finite 1482.75))"
    by (rule female_bmr)
  show "multiplier_of female_profile = Inr (float_literal 1.2)"
    by (rule female_multiplier)
  show "\<exists>p. py_mul (PFloat (Finite 1482.75)) (PFloat (float_literal 1.2)) = Inr p \<and>
        py_round p = Inr 1779"
    using female_product female_round by blast
  show "calculate_profile_data female_profile =
     Inr \<lparr>imc = Some (float_literal 22.86), tdee = Some 1779,
          imc_recommendation = ascii ''Peso saludable''\<rparr>"
    by (simp only: complete_compose [OF female_present female_imc female_bmr
        female_multiplier female_product female_round] male_rec)
qed

text \<open>
  Claim C9, as stated: the calculator raises no error for any profile, the height 0
  included. It fails on the first scenario with the height 0: \<open>height_m ** 2\<close> is 0.0 and
  the division raises \<open>ZeroDivisionError\<close>.
\<close>

theorem zero_height_counterexample:
  "calculate_profile_data zero_height_profile = Inl ZeroDivisionError"
  by (simp add: calculate_profile_data_def zero_height_present zero_height_imc and_then_def)

text \<open>
  Claim C9, amended: for a profile with a missing or null attribute the calculator
  returns the Incomplete sentinel and raises nothing. For a complete profile it returns
  the derived metrics or raises: with a float weight and the height 0 the division
  raises \<open>ZeroDivisionError\<close>, and whatever is returned holds an \<open>imc\<close> and a \<open>tdee\<close>. A
  negative weight and age raise nothing: the first scenario with weight -70 and age -30
  returns the index -22.86, the \<open>tdee\<close> 851 and \<open>Bajo peso\<close>.
\<close>

theorem total_except_division:
  "(missing_or_null user_data \<longrightarrow> calculate_profile_data user_data = Inr incomplete) \<and>
   (\<not> missing_or_null user_data \<and>
    (user_data (ascii ''height'') = Some (PFloat (Finite 0)) \<or>
     user_data (ascii ''height'') = Some (PInt 0)) \<and>
    (\<exists>w. user_data (ascii ''weight'') = Some (PFloat w)) \<longrightarrow>
      calculate_profile_data user_data = Inl ZeroDivisionError) \<and>
   (\<not> missing_or_null user_data \<longrightarrow>
      (\<forall>r. calculate_profile_data user_data = Inr r \<longrightarrow> imc r \<noteq> None \<and> tdee r \<noteq> None)) \<and>
   calculate_profile_data negative_profile =
     Inr \<lparr>imc = Some (float_literal (- 22.86)), tdee = Some 851,
          imc_recommendation = ascii ''Bajo peso''\<rparr>"
proof (intro conjI allI impI)
  assume "missing_or_null user_data"
  then show "calculate_profile_data user_data = Inr incomplete"
    using incomplete_result [of user_data] by (simp add: all_present_iff)
next
  assume a: "\<not> missing_or_null user_data \<and>
    (user_data (ascii ''height'') = Some (PFloat (Finite 0)) \<or>
     user_data (ascii ''height'') = Some (PInt 0)) \<and>
    (\<exists>w. user_data (ascii ''weight'') = Some (PFloat w))"
  then obtain w where w: "user_data (ascii ''weight'') = Some (PFloat w)" by blast
  from a have h: "user_data (ascii ''height'') = Some (PFloat (Finite 0)) \<or>
     user_data (ascii ''height'') = Some (PInt 0)" by blast
  from a have "all_present user_data" by (simp add: all_present_iff)
  then show "calculate_profile_data user_data = Inl ZeroDivisionError"
    by (simp add: calculate_profile_data_def zero_height_division [OF h w] and_then_def)
next
  fix r
  assume "\<not> missing_or_null user_data" and "calculate_profile_data user_data = Inr r"
  then obtain x t where
    "r = \<lparr>imc = Some x, tdee = Some t, imc_recommendation = imc_recommendation_of x\<rparr>"
    using complete_result [of user_data r] by (auto simp: all_present_iff)
  then show "imc r \<noteq> None" and "tdee r \<noteq> None" by simp_all
next
  show "calculate_profile_data negative_profile =
     Inr \<lparr>imc = Some (float_literal (- 22.86)), tdee = Some 851,
          imc_recommendation = ascii ''Bajo peso''\<rparr>"
    by (simp only: complete_compose [OF negative_present negative_imc negative_bmr
        negative_multiplier negative_product negative_round] negative_rec)
qed

text \<open>
  The amended claim C9 at concrete profiles: the empty profile, the first scenario with
  the height 0, and the first scenario itself.
\<close>

theorem total_except_division_witness:
  "missing_or_null Map.empty \<and> calculate_profile_data Map.empty = Inr incomplete \<and>
   \<not> missing_or_null zero_height_profile \<and>
   zero_height_profile (ascii ''height'') = Some (PFloat (Finite 0)) \<and>
   zero_height_profile (ascii ''weight'') = Some (PFloat (Finite 70)) \<and>
   calculate_profile_data zero_height_profile = Inl ZeroDivisionError \<and>
   \<not> missing_or_null male_profile \<and>
   (\<exists>r. calculate_profile_data male_profile = Inr r \<and> imc r \<noteq> None \<and> tdee r \<noteq> None)"
proof -
  have 1: "missing_or_null Map.empty"
    by (auto simp: missing_or_null_def required_keys_def)
  have 2: "\<not> missing_or_null zero_height_profile"
    using zero_height_present by (simp add: all_present_iff)
  have 3: "zero_height_profile (ascii ''height'') = Some (PFloat (Finite 0))"
    "zero_height_profile (ascii ''weight'') = Some (PFloat (Finite 70))"
    by (simp_all add: zero_height_profile_def male_profile_def ascii_def)
  have 4: "\<not> missing_or_null male_profile"
    using male_present by (simp add: all_present_iff)
  have 5: "calculate_profile_data male_profile =
     Inr \<lparr>imc = Some (float_literal 22.86), tdee = Some 2556,
          imc_recommendation = ascii ''Peso saludable''\<rparr>"
    by (simp only: complete_compose [OF male_present male_imc male_bmr male_multiplier
        male_tdee round_tdee] male_rec)
  from total_except_division [of Map.empty] 1
  have 6: "calculate_profile_data Map.empty = Inr incomplete" by blast
  from total_except_division [of zero_height_profile] 2 3
  have 7: "calculate_profile_data zero_height_profile = Inl ZeroDivisionError" by blast
  from total_except_division [of male_profile] 4
  have "\<forall>r. calculate_profile_data male_profile = Inr r \<longrightarrow> imc r \<noteq> None \<and> tdee r \<noteq> None"
    by blast
  with 5 have 8: "\<exists>r. calculate_profile_data male_profile = Inr r \<and> imc r \<noteq> None \<and> tdee r \<noteq> None"
    by blast
  from 1 6 2 3 7 4 8 show ?thesis by blast
qed

end
